theory Spec2Isabelle
  imports Complex_Main "HOL-Library.Sublist" "HOL-Library.AList"
begin

section \<open>JavaScript values used by index.js\<close>

text \<open>
  A value read from \<^verbatim>\<open>process.env\<close> or from a yargs option is a string or
  \<^verbatim>\<open>undefined\<close>: \<open>string option\<close>, \<open>None\<close> for \<^verbatim>\<open>undefined\<close>.
  The empty string and \<^verbatim>\<open>undefined\<close> are falsy; \<^verbatim>\<open>a || b\<close> is \<open>a\<close>
  when \<open>a\<close> is truthy and \<open>b\<close> otherwise.
\<close>

definition truthy :: "string option \<Rightarrow> bool" where
  "truthy v = (case v of None \<Rightarrow> False | Some s \<Rightarrow> s \<noteq> [])"

definition js_or :: "string option \<Rightarrow> string option \<Rightarrow> string option" where
  "js_or a b = (if truthy a then a else b)"

text \<open>A property key: \<^verbatim>\<open>obj[undefined]\<close> is the property named "undefined".\<close>

definition property_key :: "string option \<Rightarrow> string" where
  "property_key v = (case v of None \<Rightarrow> ''undefined'' | Some s \<Rightarrow> s)"

text \<open>
  A value that yargs yields for an option declared without a type, or for a positional
  argument: a string, a number when the text looks like one, or a boolean for a flag given
  without a value. Zero, the empty string and \<^verbatim>\<open>false\<close> are falsy.
\<close>

datatype js_value = JString string | JNumber real | JBoolean bool

definition truthy_value :: "js_value option \<Rightarrow> bool" where
  "truthy_value v =
     (case v of
        None \<Rightarrow> False
      | Some (JString s) \<Rightarrow> s \<noteq> []
      | Some (JNumber x) \<Rightarrow> x \<noteq> 0
      | Some (JBoolean b) \<Rightarrow> b)"

datatype js_error = TypeError | CredentialsProviderError

definition upper_case :: string where
  "upper_case = ''ABCDEFGHIJKLMNOPQRSTUVWXYZ''"

definition lower_case :: string where
  "lower_case = ''abcdefghijklmnopqrstuvwxyz''"

definition to_lower :: "char \<Rightarrow> char" where
  "to_lower c = (case map_of (zip upper_case lower_case) c of Some l \<Rightarrow> l | None \<Rightarrow> c)"

definition is_alpha :: "char \<Rightarrow> bool" where
  "is_alpha c = (c \<in> set upper_case \<or> c \<in> set lower_case)"

definition is_digit :: "char \<Rightarrow> bool" where
  "is_digit c = (c \<in> set ''0123456789'')"

definition lower_string :: "string \<Rightarrow> string" where
  "lower_string s = map to_lower s"

section \<open>Process environment and command line (index.js, lines 22-71)\<close>

record environment =
  ENV_ENDPOINT :: "string option"
  ENV_REGION :: "string option"
  ENV_AUTH_USER :: "string option"
  ENV_USER :: "string option"
  ENV_AUTH_PASSWORD :: "string option"
  ENV_PASSWORD :: "string option"
  ENV_HEALTH_PATH :: "string option"
  ENV_LIMIT :: "string option"
  ENV_AWS_PROFILE :: "string option"

text \<open>
  What the command line gives: the value of each flag that is present, and the positional
  arguments (\<^verbatim>\<open>argv._\<close>). The options \<^verbatim>\<open>r\<close> and \<^verbatim>\<open>H\<close> are declared with the type
  string; \<^verbatim>\<open>u\<close>, \<^verbatim>\<open>a\<close>, \<^verbatim>\<open>l\<close> and the positional arguments have no declared type.
\<close>

record cli =
  flag_r :: "string option"
  flag_u :: "js_value option"
  flag_a :: "js_value option"
  flag_H :: "string option"
  flag_l :: "js_value option"
  positional :: "js_value list"

text \<open>A yargs option is the flag's value when the flag is given, its default otherwise.\<close>

definition yargs_option :: "string option \<Rightarrow> string option \<Rightarrow> string option" where
  "yargs_option flag dflt = (case flag of Some v \<Rightarrow> Some v | None \<Rightarrow> dflt)"

text \<open>The same for an untyped option; its default comes from the environment, a string.\<close>

definition yargs_untyped :: "js_value option \<Rightarrow> string option \<Rightarrow> js_value option" where
  "yargs_untyped flag dflt = (case flag of Some v \<Rightarrow> Some v | None \<Rightarrow> map_option JString dflt)"

record argv =
  argv_r :: "string option"
  argv_u :: "js_value option"
  argv_a :: "js_value option"
  argv_H :: "string option"
  argv_l :: "js_value option"
  argv_underscore :: "js_value list"

definition parse_argv :: "environment \<Rightarrow> cli \<Rightarrow> argv" where
  "parse_argv env c =
     \<lparr> argv_r = yargs_option (flag_r c) (ENV_REGION env),
       argv_u = yargs_untyped (flag_u c) (js_or (ENV_AUTH_USER env) (ENV_USER env)),
       argv_a = yargs_untyped (flag_a c) (js_or (ENV_AUTH_PASSWORD env) (ENV_PASSWORD env)),
       argv_H = yargs_option (flag_H c) (ENV_HEALTH_PATH env),
       argv_l = yargs_untyped (flag_l c) (js_or (ENV_LIMIT env) (Some ''10000kb'')),
       argv_underscore = positional c \<rparr>"

text \<open>\<^verbatim>\<open>argv._[0]\<close>: the first positional argument, \<^verbatim>\<open>undefined\<close> when there is none.\<close>

definition first_positional :: "js_value list \<Rightarrow> js_value option" where
  "first_positional ps = (case ps of [] \<Rightarrow> None | p # _ \<Rightarrow> Some p)"

text \<open>Line 71: \<^verbatim>\<open>var ENDPOINT = process.env.ENDPOINT || argv._[0]\<close>.\<close>

definition endpoint_of :: "environment \<Rightarrow> argv \<Rightarrow> js_value option" where
  "endpoint_of env a =
     (if truthy (ENV_ENDPOINT env) then map_option JString (ENV_ENDPOINT env)
      else first_positional (argv_underscore a))"

section \<open>Region inference (index.js, lines 78-92)\<close>

text \<open>
  The regular expression \<^verbatim>\<open>/\.([^.]+)\.es\.amazonaws\.com\.?(?=.*$)/\<close> is not anchored:
  \<^verbatim>\<open>match\<close> returns the leftmost position where it matches. At a dot, \<^verbatim>\<open>[^.]+\<close>
  can only stand for the whole run of non-dot characters that follows (the next pattern
  character is a dot), that run must be non-empty and be followed by
  \<^verbatim>\<open>.es.amazonaws.com\<close>; the lookahead \<^verbatim>\<open>(?=.*$)\<close> asks that no line terminator
  follows. \<open>region_match\<close> is the capture group \<^verbatim>\<open>m[1]\<close>, \<open>None\<close> when \<^verbatim>\<open>m\<close> is
  null.
\<close>

definition line_terminator :: "char \<Rightarrow> bool" where
  "line_terminator c = (c = CHR 0x0A \<or> c = CHR 0x0D)"

definition service_suffix :: string where
  "service_suffix = ''.es.amazonaws.com''"

definition match_at_dot :: "string \<Rightarrow> string option" where
  "match_at_dot cs =
     (let label = takeWhile (\<lambda>c. c \<noteq> CHR ''.'') cs;
          rest = dropWhile (\<lambda>c. c \<noteq> CHR ''.'') cs
      in if label \<noteq> [] \<and> prefix service_suffix rest
            \<and> \<not> list_ex line_terminator (drop (length service_suffix) rest)
         then Some label else None)"

fun region_match :: "string \<Rightarrow> string option" where
  "region_match [] = None"
| "region_match (c # cs) =
     (if c = CHR ''.''
      then (case match_at_dot cs of Some label \<Rightarrow> Some label | None \<Rightarrow> region_match cs)
      else region_match cs)"

text \<open>
  Line 19 binds \<^verbatim>\<open>yargs\<close> to the factory function that \<^verbatim>\<open>yargs/yargs\<close> exports; the
  parser instance built on line 22 is not kept. The factory has no member
  \<^verbatim>\<open>showHelp\<close>, so the call \<^verbatim>\<open>yargs.showHelp()\<close> throws a TypeError: no usage text is
  written, the \<^verbatim>\<open>process.exit(1)\<close> behind it is not reached, and the process ends by the
  uncaught exception.
\<close>

datatype exit = Uncaught js_error | Exit nat

definition yargs_showHelp :: "js_error + unit" where
  "yargs_showHelp = Inl TypeError"

text \<open>\<^verbatim>\<open>yargs.showHelp(); process.exit(1);\<close>\<close>

definition usage_exit :: exit where
  "usage_exit = (case yargs_showHelp of Inl e \<Rightarrow> Uncaught e | Inr u \<Rightarrow> Exit 1)"

definition resolve_region :: "string option \<Rightarrow> string \<Rightarrow> exit + string" where
  "resolve_region r endpoint =
     (case r of
        Some reg \<Rightarrow>
          (if reg \<noteq> [] then Inr reg
           else (case region_match endpoint of Some m \<Rightarrow> Inr m | None \<Rightarrow> Inl usage_exit))
      | None \<Rightarrow> (case region_match endpoint of Some m \<Rightarrow> Inr m | None \<Rightarrow> Inl usage_exit))"

section \<open>Upstream target (index.js, lines 94-97)\<close>

definition has_http_scheme :: "string \<Rightarrow> bool" where
  "has_http_scheme s = (prefix ''http://'' s \<or> prefix ''https://'' s)"

definition make_target :: "string \<Rightarrow> string" where
  "make_target t = (if has_http_scheme t then t else ''https://'' @ t)"

section \<open>Basic-Auth users (index.js, lines 195-200)\<close>

text \<open>
  The users object holds one property: its key is \<^verbatim>\<open>user\<close>, its value \<^verbatim>\<open>pass\<close>
  (which may be \<^verbatim>\<open>undefined\<close>). \<open>None\<close> when the guard \<^verbatim>\<open>argv.u && argv.a\<close> fails and
  no Basic-Auth middleware is installed.
\<close>

definition register_users :: "environment \<Rightarrow> argv \<Rightarrow> (string \<times> string option) option" where
  "register_users env a =
     (if truthy_value (argv_u a) \<and> truthy_value (argv_a a)
      then Some (property_key (js_or (ENV_USER env) (ENV_AUTH_USER env)),
                 js_or (ENV_PASSWORD env) (ENV_AUTH_PASSWORD env))
      else None)"

section \<open>Configuration after start-up\<close>

record config =
  ENDPOINT :: string
  TARGET :: string
  REGION :: string
  REQ_LIMIT :: "js_value option"
  HEALTH :: "string option"
  users :: "(string \<times> string option) option"
  PROFILE :: "string option"

text \<open>
  Lines 71-97. A missing or falsy endpoint ends in the usage exit. An endpoint that is not
  a string (a positional argument that yargs read as a number) has no \<^verbatim>\<open>match\<close> method:
  line 81 throws, or line 95 when a region is given.
\<close>

definition startup :: "environment \<Rightarrow> cli \<Rightarrow> exit + config" where
  "startup env c =
     (let a = parse_argv env c in
      case endpoint_of env a of
        None \<Rightarrow> Inl usage_exit
      | Some v \<Rightarrow>
          if truthy_value (Some v) then
            (case v of
               JString e \<Rightarrow>
                 (case resolve_region (argv_r a) e of
                    Inl x \<Rightarrow> Inl x
                  | Inr reg \<Rightarrow>
                      Inr \<lparr> ENDPOINT = e, TARGET = make_target e, REGION = reg,
                            REQ_LIMIT = argv_l a, HEALTH = argv_H a,
                            users = register_users env a,
                            PROFILE = ENV_AWS_PROFILE env \<rparr>)
             | JNumber x \<Rightarrow> Inl (Uncaught TypeError)
             | JBoolean b \<Rightarrow> Inl (Uncaught TypeError))
          else Inl usage_exit)"

section \<open>Library behaviour the script relies on\<close>

text \<open>
  The script is glue around packages that are not part of the repository. What the model
  needs of them is taken as a parameter:
  \<^item> \<open>route_match h u\<close>: Express's router, whether the route registered for the path
    pattern \<open>h\<close> matches the request URL \<open>u\<close>;
  \<^item> \<open>sha256_hex\<close>: \<^verbatim>\<open>crypto.createHash("sha256").update(b).digest("hex")\<close>;
  \<^item> \<open>bytes_parse\<close>: the \<^verbatim>\<open>bytes\<close> package, which body-parser uses to read the limit
    (\<open>None\<close>: no limit);
  \<^item> \<open>absent_body_is_object\<close>: what body-parser leaves in \<^verbatim>\<open>req.body\<close> for a
    request without a body (an empty object in body-parser 1, \<^verbatim>\<open>undefined\<close> in
    body-parser 2);
  \<^item> \<open>zlib_inflate\<close>: the zlib decoder body-parser pipes a compressed body through,
    by encoding name; it delivers the whole inflated body, or breaks off with an error
    after the bytes it has delivered; \<open>supports_br\<close>: whether body-parser knows the
    encoding \<^verbatim>\<open>br\<close> (body-parser 2 does);
  \<^item> \<open>url_after_scheme\<close>: the WHATWG URL parser from the point where the scheme has been
    read (\<open>None\<close>: failure).
\<close>

type_synonym bytes = string

datatype js_body = Buffer bytes | Undefined | EmptyObject

datatype stream_result = Complete bytes | Broken bytes

record url =
  protocol :: string
  hostname :: string

record lib =
  route_match :: "string \<Rightarrow> string \<Rightarrow> bool"
  sha256_hex :: "bytes \<Rightarrow> string"
  bytes_parse :: "string \<Rightarrow> nat option"
  absent_body_is_object :: bool
  zlib_inflate :: "string \<Rightarrow> bytes \<Rightarrow> stream_result"
  supports_br :: bool
  url_after_scheme :: "string \<Rightarrow> string \<Rightarrow> url option"

subsection \<open>\<^verbatim>\<open>new URL(s)\<close> without a base\<close>

text \<open>
  The WHATWG parser removes leading and trailing C0 control characters and spaces, then
  every tab and newline. In the scheme start state the first character must be an ASCII
  letter; the scheme state reads letters, digits, \<^verbatim>\<open>+\<close>, \<^verbatim>\<open>-\<close> and \<^verbatim>\<open>.\<close> (lower-cased)
  up to a colon. Anything else leads to the no scheme state, which fails since there is no
  base URL: the constructor throws a TypeError.
\<close>

definition c0_control_or_space :: "char \<Rightarrow> bool" where
  "c0_control_or_space c = ((of_char c :: nat) \<le> 32)"

definition tab_or_newline :: "char \<Rightarrow> bool" where
  "tab_or_newline c = (c = CHR 0x09 \<or> c = CHR 0x0A \<or> c = CHR 0x0D)"

definition url_input :: "string \<Rightarrow> string" where
  "url_input s =
     filter (\<lambda>c. \<not> tab_or_newline c)
       (rev (dropWhile c0_control_or_space (rev (dropWhile c0_control_or_space s))))"

fun scheme_state :: "string \<Rightarrow> string \<Rightarrow> (string \<times> string) option" where
  "scheme_state buffer [] = None"
| "scheme_state buffer (c # cs) =
     (if is_alpha c \<or> is_digit c \<or> c = CHR ''+'' \<or> c = CHR ''-'' \<or> c = CHR ''.''
      then scheme_state (buffer @ [to_lower c]) cs
      else if c = CHR '':'' then Some (buffer, cs)
      else None)"

definition scheme_start_state :: "string \<Rightarrow> (string \<times> string) option" where
  "scheme_start_state s =
     (case s of
        [] \<Rightarrow> None
      | c # cs \<Rightarrow> if is_alpha c then scheme_state [to_lower c] cs else None)"

definition URL_new :: "lib \<Rightarrow> string \<Rightarrow> js_error + url" where
  "URL_new l s =
     (case scheme_start_state (url_input s) of
        None \<Rightarrow> Inl TypeError
      | Some (scheme, rest) \<Rightarrow>
          (case url_after_scheme l scheme rest of
             None \<Rightarrow> Inl TypeError
           | Some u \<Rightarrow> Inr u))"

section \<open>Requests, replies and the events of one request\<close>

text \<open>
  An inbound request as Express hands it to the middleware: \<open>req_headers\<close> has lower-case
  names (Node's \<^verbatim>\<open>req.headers\<close>); \<open>req_body\<close> is the body on the wire, as the
  Content-Encoding header says it is encoded, \<open>None\<close> for a request that announces no
  body (no Content-Length and no Transfer-Encoding);
  \<open>req_auth\<close> is the user name and password that the Basic-Auth middleware reads from the
  Authorization header, \<open>None\<close> when there is no such header or it is malformed.
\<close>

record request =
  req_httpVersion :: string
  req_method :: string
  req_url :: string
  req_headers :: "string \<rightharpoonup> string"
  req_body :: "bytes option"
  req_auth :: "(string \<times> string) option"

text \<open>
  The call \<^verbatim>\<open>proxy.web(req, res, { buffer: bufferStream })\<close>: the request as it is handed
  to http-proxy, with the proxy's configured target. \<open>fwd_buffer\<close> is the content of
  \<^verbatim>\<open>bufferStream\<close>, \<open>None\<close> when it is \<^verbatim>\<open>undefined\<close>.
\<close>

record forward =
  fwd_target :: string
  fwd_method :: string
  fwd_url :: string
  fwd_headers :: "string \<rightharpoonup> string"
  fwd_buffer :: "bytes option"

text \<open>
  http-proxy pipes \<^verbatim>\<open>options.buffer\<close> to the upstream request when it is given and the
  inbound request stream otherwise. The script passes no buffer only for a request whose
  stream holds no bytes.
\<close>

definition upstream_body :: "forward \<Rightarrow> bytes" where
  "upstream_body f = (case fwd_buffer f of Some b \<Rightarrow> b | None \<Rightarrow> [])"

text \<open>
  How a request ends: \<open>Reply\<close> is a response written by the script (status, the headers it
  sets, the body it sends); \<open>ErrorReply\<close> is Express's default error handler answering with
  the status of an error passed to \<^verbatim>\<open>next\<close>; \<open>Forwarded\<close> is the hand-over to http-proxy.
\<close>

datatype reply =
    Reply nat "(string \<times> string) list" string
  | ErrorReply nat
  | Forwarded forward

text \<open>The request object that the handler gives to \<^verbatim>\<open>signer.sign\<close>.\<close>

record sign_request =
  sr_method :: string
  sr_path :: string
  sr_headers :: "(string \<times> string) list"
  sr_body :: bytes

text \<open>
  What happens while one request is served, in order: a call of \<^verbatim>\<open>credentials()\<close> by
  \<open>getCredentials\<close>, a call of \<^verbatim>\<open>signer.sign\<close> with its argument, a call of
  \<^verbatim>\<open>proxy.web\<close>.
\<close>

datatype event = ResolveCredentials | SignRequest sign_request | UpstreamCall


text \<open>
  What the world answers during one request: whether \<^verbatim>\<open>await credentials()\<close> succeeds in
  \<open>getCredentials\<close>, and for the signer whether it obtains credentials, their session
  token, the time stamp and the authorization value it computes.
\<close>

record world =
  credentials_ok :: bool
  signer_credentials_ok :: bool
  session_token :: "string option"
  amz_date :: string
  authorization_of :: "sign_request \<Rightarrow> string"

section \<open>The signer (\<^verbatim>\<open>SignatureV4.sign\<close> of the AWS SDK)\<close>

text \<open>
  The SDK clones the request, drops the headers it generates itself, sets
  \<^verbatim>\<open>x-amz-date\<close>, sets \<^verbatim>\<open>x-amz-security-token\<close> when the credentials carry a session
  token, adds \<^verbatim>\<open>x-amz-content-sha256\<close> only when the request has no such header, and sets
  \<^verbatim>\<open>authorization\<close>. Header names are property names: case-sensitive, in insertion order.
  It fails when it cannot obtain credentials.
\<close>

definition generated_headers :: "string list" where
  "generated_headers = [''authorization'', ''x-amz-date'', ''date'']"

definition has_header :: "string \<Rightarrow> (string \<times> string) list \<Rightarrow> bool" where
  "has_header name hs = (name \<in> set (map (\<lambda>kv. lower_string (fst kv)) hs))"

definition SignatureV4_sign ::
  "lib \<Rightarrow> world \<Rightarrow> sign_request \<Rightarrow> js_error + (string \<times> string) list" where
  "SignatureV4_sign l w rq =
     (if signer_credentials_ok w then
        (let h0 = filter (\<lambda>kv. lower_string (fst kv) \<notin> set generated_headers) (sr_headers rq);
             h1 = AList.update ''x-amz-date'' (amz_date w) h0;
             h2 = (case session_token w of
                     None \<Rightarrow> h1
                   | Some t \<Rightarrow> if t = [] then h1 else AList.update ''x-amz-security-token'' t h1);
             h3 = (if has_header ''x-amz-content-sha256'' h2 then h2
                   else AList.update ''x-amz-content-sha256'' (sha256_hex l (sr_body rq)) h2)
         in Inr (AList.update ''authorization''
                   (authorization_of w (rq\<lparr>sr_headers := h3\<rparr>)) h3))
      else Inl CredentialsProviderError)"

section \<open>The sign-and-forward handler (index.js, lines 210-278)\<close>

definition headersToInclude :: "string list" where
  "headersToInclude =
     [''accept'', ''accept-encoding'', ''accept-language'', ''content-type'',
      ''upgrade-insecure-requests'']"

text \<open>
  Lines 216-218: a Buffer is taken as it is; \<^verbatim>\<open>undefined\<close> becomes the empty buffer;
  an empty object is truthy and \<^verbatim>\<open>Buffer.from({})\<close> throws a TypeError.
\<close>

definition to_buffer :: "js_body \<Rightarrow> js_error + bytes" where
  "to_buffer b = (case b of Buffer bs \<Rightarrow> Inr bs | Undefined \<Rightarrow> Inr [] | EmptyObject \<Rightarrow> Inl TypeError)"

text \<open>Lines 225-250: the request object given to the signer.\<close>

definition canonical_request :: "lib \<Rightarrow> url \<Rightarrow> request \<Rightarrow> bytes \<Rightarrow> sign_request" where
  "canonical_request l u rq body =
     \<lparr> sr_method = req_method rq,
       sr_path = req_url rq,
       sr_headers =
         fold (\<lambda>headerName hs.
                 case req_headers rq headerName of
                   None \<Rightarrow> hs
                 | Some v \<Rightarrow> AList.update headerName v hs)
              headersToInclude
              [(''Host'', hostname u), (''x-amz-content-sha256'', sha256_hex l body)],
       sr_body = body \<rparr>"

text \<open>
  Lines 256-264: the signed headers are copied onto the inbound request's headers; a
  property the signed request does not have is \<^verbatim>\<open>undefined\<close>.
\<close>

definition apply_signed ::
  "(string \<rightharpoonup> string) \<Rightarrow> (string \<times> string) list \<Rightarrow> (string \<rightharpoonup> string)" where
  "apply_signed hs signed =
     (let h1 = hs(''host'' := map_of signed ''host'');
          h2 = h1(''x-amz-date'' := map_of signed ''x-amz-date'');
          h3 = h2(''authorization'' := map_of signed ''authorization'');
          h4 = h3(''x-amz-content-sha256'' := map_of signed ''x-amz-content-sha256'')
      in if truthy (map_of signed ''x-amz-security-token'')
         then h4(''x-amz-security-token'' := map_of signed ''x-amz-security-token'')
         else h4)"

text \<open>Lines 266-270: the buffer stream exists only when \<^verbatim>\<open>req.body\<close> is a Buffer.\<close>

definition buffer_stream :: "js_body \<Rightarrow> bytes option" where
  "buffer_stream b = (case b of Buffer bs \<Rightarrow> Some bs | Undefined \<Rightarrow> None | EmptyObject \<Rightarrow> None)"

definition internal_server_error :: reply where
  "internal_server_error = Reply 500 [] ''Internal Server Error''"

definition sign_and_forward ::
  "lib \<Rightarrow> config \<Rightarrow> world \<Rightarrow> request \<Rightarrow> js_body \<Rightarrow> reply \<times> event list" where
  "sign_and_forward l cfg w rq body =
     (case URL_new l (ENDPOINT cfg) of
        Inl e \<Rightarrow> (internal_server_error, [])
      | Inr u \<Rightarrow>
          (case to_buffer body of
             Inl e \<Rightarrow> (internal_server_error, [])
           | Inr buf \<Rightarrow>
               (case SignatureV4_sign l w (canonical_request l u rq buf) of
                  Inl e \<Rightarrow> (internal_server_error, [SignRequest (canonical_request l u rq buf)])
                | Inr signed \<Rightarrow>
                    (Forwarded
                       \<lparr> fwd_target = TARGET cfg,
                         fwd_method = req_method rq,
                         fwd_url = req_url rq,
                         fwd_headers = apply_signed (req_headers rq) signed,
                         fwd_buffer = buffer_stream body \<rparr>,
                     [SignRequest (canonical_request l u rq buf), UpstreamCall]))))"

section \<open>The middleware chain (index.js, lines 176-208)\<close>

text \<open>
  The \<^verbatim>\<open>compression\<close> middleware comes first; it only wraps how a response is written
  and takes no part in what is modelled here.
\<close>

text \<open>
  \<^verbatim>\<open>bodyParser.raw\<close> with a type function that accepts everything, and with body-parser's
  default \<^verbatim>\<open>inflate: true\<close>. The limit is \<^verbatim>\<open>opts.limit\<close> itself when that is a number and
  \<^verbatim>\<open>bytes.parse(opts.limit || "100kb")\<close> otherwise (\<open>None\<close>: no limit).
\<close>

definition effective_limit :: "lib \<Rightarrow> config \<Rightarrow> real option" where
  "effective_limit l cfg =
     (case REQ_LIMIT cfg of
        None \<Rightarrow> map_option real (bytes_parse l ''100kb'')
      | Some (JNumber x) \<Rightarrow> Some x
      | Some (JString s) \<Rightarrow> map_option real (bytes_parse l (if s = [] then ''100kb'' else s))
      | Some (JBoolean b) \<Rightarrow> if b then None else map_option real (bytes_parse l ''100kb''))"

text \<open>
  body-parser's \<^verbatim>\<open>contentstream\<close>: the stream the body is read from. A body encoded
  \<^verbatim>\<open>deflate\<close> or \<^verbatim>\<open>gzip\<close> is piped through the decoder, an \<^verbatim>\<open>identity\<close> body is read
  as it is, any other encoding is refused with the error 415.
\<close>

definition content_encoding :: "request \<Rightarrow> string" where
  "content_encoding rq =
     lower_string (case req_headers rq ''content-encoding'' of
                     None \<Rightarrow> ''identity''
                   | Some e \<Rightarrow> if e = [] then ''identity'' else e)"

definition contentstream :: "lib \<Rightarrow> request \<Rightarrow> bytes \<Rightarrow> nat + stream_result" where
  "contentstream l rq wire =
     (let encoding = content_encoding rq in
      if encoding = ''deflate'' \<or> encoding = ''gzip'' then Inr (zlib_inflate l encoding wire)
      else if encoding = ''br'' \<and> supports_br l then Inr (zlib_inflate l encoding wire)
      else if encoding = ''identity'' then Inr (Complete wire)
      else Inl 415)"

text \<open>
  raw-body reads the stream and counts what it receives: more bytes than the limit give
  the error 413; a stream that breaks off within the limit gives the error 400.
\<close>

definition exceeds :: "real option \<Rightarrow> nat \<Rightarrow> bool" where
  "exceeds limit n = (case limit of None \<Rightarrow> False | Some x \<Rightarrow> x < real n)"

definition getBody :: "real option \<Rightarrow> stream_result \<Rightarrow> nat + bytes" where
  "getBody limit stream =
     (case stream of
        Complete data \<Rightarrow> if exceeds limit (length data) then Inl 413 else Inr data
      | Broken received \<Rightarrow> if exceeds limit (length received) then Inl 413 else Inl 400)"

text \<open>
  A request without a body is skipped; otherwise the body that was read is stored in
  \<^verbatim>\<open>req.body\<close> as a Buffer, and an error goes to \<^verbatim>\<open>next\<close> with its status.
\<close>

definition bodyParser_raw :: "lib \<Rightarrow> config \<Rightarrow> request \<Rightarrow> nat + js_body" where
  "bodyParser_raw l cfg rq =
     (case req_body rq of
        None \<Rightarrow> Inr (if absent_body_is_object l then EmptyObject else Undefined)
      | Some wire \<Rightarrow>
          (case contentstream l rq wire of
             Inl status \<Rightarrow> Inl status
           | Inr stream \<Rightarrow>
               (case getBody (effective_limit l cfg) stream of
                  Inl status \<Rightarrow> Inl status
                | Inr data \<Rightarrow> Inr (Buffer data))))"

text \<open>
  The body parser passes a request on when it has no body, or one that the parser can read
  and that is within the limit.
\<close>

definition within_limit :: "lib \<Rightarrow> config \<Rightarrow> request \<Rightarrow> bool" where
  "within_limit l cfg rq = (case bodyParser_raw l cfg rq of Inl status \<Rightarrow> False | Inr body \<Rightarrow> True)"

text \<open>
  Lines 188-193: the health route exists when \<^verbatim>\<open>argv.H\<close> is truthy; \<^verbatim>\<open>app.get\<close> answers
  GET and HEAD requests that the router matches.
\<close>

definition health_route :: "lib \<Rightarrow> config \<Rightarrow> request \<Rightarrow> bool" where
  "health_route l cfg rq =
     (case HEALTH cfg of
        None \<Rightarrow> False
      | Some h \<Rightarrow>
          h \<noteq> [] \<and> (req_method rq = ''GET'' \<or> req_method rq = ''HEAD'')
          \<and> route_match l h (req_url rq))"

text \<open>
  express-basic-auth with the static users object: a request without credentials is
  unauthorized; otherwise the given name and password are compared with the registered
  property. Comparing with an \<^verbatim>\<open>undefined\<close> password throws inside the middleware.
\<close>

datatype auth_result = Authorized | Unauthorized | AuthorizerThrew

definition basicAuth :: "string \<times> string option \<Rightarrow> (string \<times> string) option \<Rightarrow> auth_result" where
  "basicAuth registered presented =
     (case presented of
        None \<Rightarrow> Unauthorized
      | Some (name, pass) \<Rightarrow>
          (case snd registered of
             None \<Rightarrow> AuthorizerThrew
           | Some secret \<Rightarrow>
               if name = fst registered \<and> pass = secret then Authorized else Unauthorized))"

definition handle :: "lib \<Rightarrow> config \<Rightarrow> world \<Rightarrow> request \<Rightarrow> js_body \<Rightarrow> reply \<times> event list" where
  "handle l cfg w rq body =
     (fst (sign_and_forward l cfg w rq body),
      ResolveCredentials # snd (sign_and_forward l cfg w rq body))"

definition app :: "lib \<Rightarrow> config \<Rightarrow> world \<Rightarrow> request \<Rightarrow> reply \<times> event list" where
  "app l cfg w rq =
     (case bodyParser_raw l cfg rq of
        Inl status \<Rightarrow> (ErrorReply status, [])
      | Inr body \<Rightarrow>
          if credentials_ok w then
            (if health_route l cfg rq
             then (Reply 200 [(''Content-Type'', ''text/plain'')] ''ok'', [ResolveCredentials])
             else (case users cfg of
                     None \<Rightarrow> handle l cfg w rq body
                   | Some registered \<Rightarrow>
                       (case basicAuth registered (req_auth rq) of
                          Unauthorized \<Rightarrow>
                            (Reply 401 [(''WWW-Authenticate'', ''Basic'')] [],
                             [ResolveCredentials])
                        | AuthorizerThrew \<Rightarrow> (ErrorReply 500, [ResolveCredentials])
                        | Authorized \<Rightarrow> handle l cfg w rq body)))
          else (ErrorReply 500, [ResolveCredentials]))"

section \<open>The \<^verbatim>\<open>proxyRes\<close> hook (index.js, lines 280-284)\<close>

text \<open>
  \<^verbatim>\<open>req.url.match(/\.(css|js|img|font)/)\<close>: the pattern is not anchored, it matches when
  a dot followed by one of the four words occurs anywhere in the URL.
\<close>

definition asset_words :: "string list" where
  "asset_words = [''css'', ''js'', ''img'', ''font'']"

fun static_asset_match :: "string \<Rightarrow> bool" where
  "static_asset_match [] = False"
| "static_asset_match (c # cs) =
     ((c = CHR ''.'' \<and> list_ex (\<lambda>word. prefix word cs) asset_words)
      \<or> static_asset_match cs)"

text \<open>The response under construction; header names are kept in lower case by Node.\<close>

record response =
  res_status :: nat
  res_headers :: "string \<rightharpoonup> string"
  res_body :: bytes

definition proxyRes_hook :: "request \<Rightarrow> response \<Rightarrow> response" where
  "proxyRes_hook rq res =
     (if static_asset_match (req_url rq)
      then res\<lparr>res_headers := (res_headers res)(''cache-control'' \<mapsto> ''public, max-age=86400'')\<rparr>
      else res)"

text \<open>
  http-proxy, when the upstream response \<open>proxyRes\<close> arrives: it emits the
  \<^verbatim>\<open>proxyRes\<close> event first, so the hook runs on the response object \<open>res\<close> as the
  middleware left it; then its outgoing passes adjust the upstream headers (for an
  HTTP/1.0 request \<^verbatim>\<open>transfer-encoding\<close> is deleted and \<^verbatim>\<open>connection\<close> is set; for
  HTTP/1.1 \<^verbatim>\<open>connection\<close> is set when the upstream sent none), copy every upstream
  header onto \<open>res\<close> with \<^verbatim>\<open>res.setHeader\<close>, replacing a header of the same name, and
  copy the status; the upstream body is piped to \<open>res\<close>. The result is what is written
  to \<open>res\<close>; the compression middleware encodes it afterwards.
\<close>

definition connection_of :: "request \<Rightarrow> string \<Rightarrow> string" where
  "connection_of rq dflt =
     (if truthy (req_headers rq ''connection'') then
        (case req_headers rq ''connection'' of None \<Rightarrow> dflt | Some c \<Rightarrow> c)
      else dflt)"

definition outgoing_headers :: "request \<Rightarrow> (string \<rightharpoonup> string) \<Rightarrow> (string \<rightharpoonup> string)" where
  "outgoing_headers rq hs =
     (if req_httpVersion rq = ''1.0''
      then (hs(''transfer-encoding'' := None))(''connection'' \<mapsto> connection_of rq ''close'')
      else if req_httpVersion rq \<noteq> ''2.0'' \<and> \<not> truthy (hs ''connection'')
      then hs(''connection'' \<mapsto> connection_of rq ''keep-alive'')
      else hs)"

definition relay :: "request \<Rightarrow> response \<Rightarrow> response \<Rightarrow> response" where
  "relay rq res proxyRes =
     \<lparr> res_status = res_status proxyRes,
       res_headers = res_headers (proxyRes_hook rq res) ++ outgoing_headers rq (res_headers proxyRes),
       res_body = res_body proxyRes \<rparr>"

section \<open>Credential initialisation (index.js, lines 108-157)\<close>

text \<open>
  A credential provider is the call that constructed it: \<^verbatim>\<open>fromNodeProviderChain(init)\<close>
  with \<open>Some p\<close> for \<^verbatim>\<open>{ profile: p }\<close> and \<open>None\<close> for no argument. The world decides
  each resolution attempt, numbered in order (\<open>Some msg\<close>: it fails with that message),
  and the STS identity call.
\<close>

datatype provider = FromNodeProviderChain "string option"

record init_world =
  resolution :: "provider \<Rightarrow> nat \<Rightarrow> string option"
  sts_identity :: "provider \<Rightarrow> string \<Rightarrow> string option"

datatype init_event =
    Construct provider
  | Resolve provider
  | Log string
  | NewSigner provider string
  | GetCallerIdentity provider string
  | SsoHint
  | ProcessExit nat

text \<open>The outer catch block: log, hint at the SSO login when the message says SSO, exit.\<close>

definition load_failed :: "string \<Rightarrow> init_event list" where
  "load_failed msg =
     Log ''Failed to load AWS credentials:'' #
     (if sublist ''SSO'' msg then [SsoHint, ProcessExit 1] else [ProcessExit 1])"

text \<open>Lines 130-146: the signer is created and the credentials are tested with STS.\<close>

definition validate :: "init_world \<Rightarrow> string \<Rightarrow> provider \<Rightarrow> init_event list" where
  "validate w region creds =
     NewSigner creds region # GetCallerIdentity creds region #
     (case sts_identity w creds region of
        None \<Rightarrow> [Log ''AWS credentials validated successfully for account'']
      | Some msg \<Rightarrow> load_failed msg)"

definition initializeCredentials :: "init_world \<Rightarrow> string option \<Rightarrow> string \<Rightarrow> init_event list" where
  "initializeCredentials w profile region =
     (if truthy profile then
        (let c1 = FromNodeProviderChain profile in
         case resolution w c1 0 of
           None \<Rightarrow>
             [Construct c1, Resolve c1, Log ''AWS SSO credentials loaded successfully'']
             @ validate w region c1
         | Some ssoError \<Rightarrow>
             (let c2 = FromNodeProviderChain profile in
              [Construct c1, Resolve c1,
               Log ''SSO credentials not available, trying regular profile...'',
               Construct c2, Resolve c2]
              @ (case resolution w c2 1 of
                   None \<Rightarrow>
                     Log ''AWS profile credentials loaded successfully'' # validate w region c2
                 | Some err \<Rightarrow> load_failed err)))
      else
        (let c = FromNodeProviderChain None in
         [Construct c, Resolve c]
         @ (case resolution w c 0 of
              None \<Rightarrow> Log ''AWS default credentials loaded successfully'' # validate w region c
            | Some err \<Rightarrow> load_failed err)))"

text \<open>The providers a run constructs, in order.\<close>

fun constructed :: "init_event list \<Rightarrow> provider list" where
  "constructed [] = []"
| "constructed (Construct p # es) = p # constructed es"
| "constructed (e # es) = constructed es"

section \<open>A concrete instance of the libraries, for evaluating examples\<close>

text \<open>
  The router compares the path (the URL up to the query) with a literal route path; the
  digest is a stand-in (the theorems below hold for every digest function), and so is the
  decoder, which inflates a body to twice its bytes; the limit
  strings are those of the script's defaults and \<^verbatim>\<open>8b\<close>. The URL parser continues as
  the WHATWG parser does for ASCII host names without user information: after a special
  scheme it skips slashes and backslashes and reads the lower-cased host, which must not
  be empty; after any other scheme it reads a host only behind \<^verbatim>\<open>//\<close>, and a URL such
  as \<^verbatim>\<open>localhost:9200\<close> has an opaque path and the empty host name.
\<close>

definition special_schemes :: "string list" where
  "special_schemes = [''http'', ''https'', ''ws'', ''wss'', ''ftp'']"

definition host_end :: "char \<Rightarrow> bool" where
  "host_end c = (c = CHR ''/'' \<or> c = CHR 0x5C \<or> c = CHR '':'' \<or> c = CHR ''?'' \<or> c = CHR ''#'')"

definition simple_url_after_scheme :: "string \<Rightarrow> string \<Rightarrow> url option" where
  "simple_url_after_scheme scheme rest =
     (if scheme \<in> set special_schemes then
        (let host = map to_lower
                      (takeWhile (\<lambda>c. \<not> host_end c)
                         (dropWhile (\<lambda>c. c = CHR ''/'' \<or> c = CHR 0x5C) rest))
         in if host = [] then None else Some \<lparr> protocol = scheme @ '':'', hostname = host \<rparr>)
      else if prefix ''//'' rest then
        Some \<lparr> protocol = scheme @ '':'',
               hostname = takeWhile (\<lambda>c. \<not> host_end c) (drop 2 rest) \<rparr>
      else Some \<lparr> protocol = scheme @ '':'', hostname = [] \<rparr>)"

definition simple_lib :: lib where
  "simple_lib =
     \<lparr> route_match = (\<lambda>h u. takeWhile (\<lambda>c. c \<noteq> CHR ''?'') u = h),
       sha256_hex = (\<lambda>b. ''digest-of:'' @ b),
       bytes_parse = (\<lambda>s. if s = ''10000kb'' then Some 10240000
                           else if s = ''100kb'' then Some 102400
                           else if s = ''8b'' then Some 8 else None),
       absent_body_is_object = False,
       zlib_inflate = (\<lambda>encoding wire. Complete (wire @ wire)),
       supports_br = False,
       url_after_scheme = simple_url_after_scheme \<rparr>"

definition simple_world :: world where
  "simple_world =
     \<lparr> credentials_ok = True, signer_credentials_ok = True, session_token = None,
       amz_date = ''20240101T000000Z'', authorization_of = (\<lambda>r. ''AWS4-HMAC-SHA256'') \<rparr>"

text \<open>
  A start-up as in the README's basic usage, with Basic-Auth options on the command line:
  \<^verbatim>\<open>node index.js -u alice -a secret search-prod.us-west-2.es.amazonaws.com\<close>, run by
  the user root with \<^verbatim>\<open>AUTH_PASSWORD=envpw\<close> in the environment.
\<close>

definition demo_env :: environment where
  "demo_env =
     \<lparr> ENV_ENDPOINT = None, ENV_REGION = None, ENV_AUTH_USER = None,
       ENV_USER = Some ''root'', ENV_AUTH_PASSWORD = Some ''envpw'', ENV_PASSWORD = None,
       ENV_HEALTH_PATH = None, ENV_LIMIT = None, ENV_AWS_PROFILE = None \<rparr>"

definition demo_cli :: cli where
  "demo_cli =
     \<lparr> flag_r = None, flag_u = Some (JString ''alice''), flag_a = Some (JString ''secret''),
       flag_H = None, flag_l = None,
       positional = [JString ''search-prod.us-west-2.es.amazonaws.com''] \<rparr>"

text \<open>
  A configuration with a full URL as endpoint, a health path, a limit of eight bytes and
  no Basic-Auth; a GET request for the health path without body or credentials.
\<close>

definition demo_config :: config where
  "demo_config =
     \<lparr> ENDPOINT = ''https://search-prod.us-west-2.es.amazonaws.com'',
       TARGET = ''https://search-prod.us-west-2.es.amazonaws.com'',
       REGION = ''us-west-2'', REQ_LIMIT = Some (JString ''8b''), HEALTH = Some ''/health'',
       users = None, PROFILE = None \<rparr>"

definition demo_request :: request where
  "demo_request =
     \<lparr> req_httpVersion = ''1.1'', req_method = ''GET'', req_url = ''/health'',
       req_headers = Map.empty, req_body = None, req_auth = None \<rparr>"

text \<open>A world in which every credential resolution fails with an SSO message.\<close>

definition sso_expired_world :: init_world where
  "sso_expired_world =
     \<lparr> resolution = (\<lambda>p n. Some ''The SSO session has expired''),
       sts_identity = (\<lambda>p r. None) \<rparr>"

section \<open>Occurrences of the region pattern\<close>

text \<open>
  An occurrence of the pattern of line 81 in the string \<open>e\<close>: behind the text \<open>p\<close> come a
  dot, the non-empty dot-free label \<open>m\<close>, \<^verbatim>\<open>.es.amazonaws.com\<close>, and the rest \<open>q\<close>, which
  holds no line terminator.
\<close>

abbreviation region_occurrence :: "string \<Rightarrow> string \<Rightarrow> string \<Rightarrow> string \<Rightarrow> bool" where
  "region_occurrence e p m q \<equiv>
     e = p @ ''.'' @ m @ service_suffix @ q \<and> m \<noteq> [] \<and> CHR ''.'' \<notin> set m
     \<and> \<not> list_ex line_terminator q"

section \<open>Region resolution\<close>

lemma service_suffix_dot: "\<exists>t. service_suffix = CHR ''.'' # t"
  by (simp add: service_suffix_def)

lemma takeWhile_until: "c \<notin> set xs \<Longrightarrow> takeWhile (\<lambda>x. x \<noteq> c) (xs @ c # ys) = xs"
  by (induction xs) auto

lemma dropWhile_until: "c \<notin> set xs \<Longrightarrow> dropWhile (\<lambda>x. x \<noteq> c) (xs @ c # ys) = c # ys"
  by (induction xs) auto

lemma match_at_dot_label:
  assumes "lab \<noteq> []" "CHR ''.'' \<notin> set lab" "\<not> list_ex line_terminator post"
  shows "match_at_dot (lab @ service_suffix @ post) = Some lab"
proof -
  obtain t where t: "service_suffix = CHR ''.'' # t" using service_suffix_dot by blast
  have tw: "takeWhile (\<lambda>c. c \<noteq> CHR ''.'') (lab @ service_suffix @ post) = lab"
    using assms(2) unfolding t by (simp add: takeWhile_until)
  have dw: "dropWhile (\<lambda>c. c \<noteq> CHR ''.'') (lab @ service_suffix @ post) = service_suffix @ post"
    using assms(2) unfolding t by (simp add: dropWhile_until)
  show ?thesis
    unfolding match_at_dot_def tw dw Let_def using assms(1,3) by simp
qed

lemma match_at_dot_SomeD:
  assumes "match_at_dot cs = Some lab"
  shows "\<exists>post. cs = lab @ service_suffix @ post \<and> lab \<noteq> [] \<and> CHR ''.'' \<notin> set lab
            \<and> \<not> list_ex line_terminator post"
proof -
  let ?t = "takeWhile (\<lambda>c. c \<noteq> CHR ''.'') cs" and ?d = "dropWhile (\<lambda>c. c \<noteq> CHR ''.'') cs"
  from assms have l: "lab = ?t" and ne: "?t \<noteq> []" and p: "prefix service_suffix ?d"
    and nl: "\<not> list_ex line_terminator (drop (length service_suffix) ?d)"
    unfolding match_at_dot_def Let_def by (simp_all split: if_splits)
  from p obtain post where d: "?d = service_suffix @ post" unfolding prefix_def by blast
  have "lab @ service_suffix @ post = ?t @ ?d" using l d by simp
  also have "\<dots> = cs" by simp
  finally have "cs = lab @ service_suffix @ post" by (rule sym)
  moreover have "CHR ''.'' \<notin> set lab" unfolding l by (auto dest: set_takeWhileD)
  moreover have "\<not> list_ex line_terminator post" using nl unfolding d by simp
  moreover have "lab \<noteq> []" using ne l by simp
  ultimately show ?thesis by (intro exI [of _ post] conjI)
qed



lemma region_match_dotfree_prefix:
  assumes "CHR ''.'' \<notin> set pre" "lab \<noteq> []" "CHR ''.'' \<notin> set lab" "\<not> list_ex line_terminator post"
  shows "region_match (pre @ ''.'' @ lab @ service_suffix @ post) = Some lab"
  using assms(1)
proof (induction pre)
  case Nil
  show ?case using match_at_dot_label [OF assms(2,3,4)] by simp
next
  case (Cons c pre)
  then show ?case by auto
qed

lemma region_match_Cons:
  "region_match (c # e) = Some lab \<Longrightarrow>
   (c = CHR ''.'' \<and> match_at_dot e = Some lab) \<or> region_match e = Some lab"
  by (simp split: if_splits option.splits)

lemma region_match_SomeD:
  "region_match e = Some lab \<Longrightarrow>
   \<exists>pre post. e = pre @ ''.'' @ lab @ service_suffix @ post \<and> lab \<noteq> []
      \<and> CHR ''.'' \<notin> set lab \<and> \<not> list_ex line_terminator post"
proof (induction e)
  case Nil
  then show ?case by simp
next
  case (Cons c e)
  from region_match_Cons [OF Cons.prems] show ?case
  proof
    assume a: "c = CHR ''.'' \<and> match_at_dot e = Some lab"
    then obtain post where p: "e = lab @ service_suffix @ post" "lab \<noteq> []"
      "CHR ''.'' \<notin> set lab" "\<not> list_ex line_terminator post"
      using match_at_dot_SomeD by blast
    have "c # e = [] @ ''.'' @ lab @ service_suffix @ post" using a p(1) by simp
    with p(2,3,4) show ?thesis by (intro exI conjI)
  next
    assume "region_match e = Some lab"
    from Cons.IH [OF this] obtain pre post where p:
      "e = pre @ ''.'' @ lab @ service_suffix @ post" "lab \<noteq> []"
      "CHR ''.'' \<notin> set lab" "\<not> list_ex line_terminator post" by blast
    have "c # e = (c # pre) @ ''.'' @ lab @ service_suffix @ post" using p(1) by simp
    with p(2,3,4) show ?thesis by (intro exI conjI)
  qed
qed

lemma region_match_complete:
  assumes "lab \<noteq> []" "CHR ''.'' \<notin> set lab" "\<not> list_ex line_terminator post"
  shows "region_match (pre @ ''.'' @ lab @ service_suffix @ post) \<noteq> None"
proof (induction pre)
  case Nil
  show ?case using match_at_dot_label [OF assms] by simp
next
  case (Cons c pre)
  then show ?case by (simp split: option.splits)
qed

lemma resolve_region_inferred:
  "\<not> truthy r \<Longrightarrow> resolve_region r e =
     (case region_match e of Some m \<Rightarrow> Inr m | None \<Rightarrow> Inl usage_exit)"
  by (auto simp: resolve_region_def truthy_def split: option.splits)

lemma region_match_leftmost:
  "region_match e = Some m \<Longrightarrow>
   \<exists>p q. region_occurrence e p m q
     \<and> (\<forall>p' m' q'. region_occurrence e p' m' q' \<longrightarrow> length p \<le> length p')"
proof (induction e)
  case Nil
  then show ?case by simp
next
  case (Cons c e)
  show ?case
  proof (cases "c = CHR ''.'' \<and> match_at_dot e \<noteq> None")
    case True
    with Cons.prems have "match_at_dot e = Some m" by auto
    from match_at_dot_SomeD [OF this] obtain q where
      q: "e = m @ service_suffix @ q" "m \<noteq> []" "CHR ''.'' \<notin> set m"
         "\<not> list_ex line_terminator q" by blast
    with True have "region_occurrence (c # e) [] m q" by simp
    moreover have "\<forall>p' m' q'. region_occurrence (c # e) p' m' q' \<longrightarrow> length ([]::string) \<le> length p'"
      by simp
    ultimately show ?thesis by blast
  next
    case False
    with Cons.prems have "region_match e = Some m"
      by (auto split: if_splits option.splits)
    from Cons.IH [OF this] obtain p q where
      o: "region_occurrence e p m q"
      and least: "\<forall>p' m' q'. region_occurrence e p' m' q' \<longrightarrow> length p \<le> length p'" by blast
    from o have 1: "region_occurrence (c # e) (c # p) m q" by simp
    have 2: "length (c # p) \<le> length p'" if h: "region_occurrence (c # e) p' m' q'" for p' m' q'
    proof (cases p')
      case Nil
      with h have "c = CHR ''.''" and "e = m' @ service_suffix @ q'" by simp_all
      with h match_at_dot_label [of m' q'] have "c = CHR ''.'' \<and> match_at_dot e \<noteq> None" by simp
      with False show ?thesis by simp
    next
      case (Cons d p'')
      with h have "region_occurrence e p'' m' q'" by simp
      with least have "length p \<le> length p''" by blast
      with Cons show ?thesis by simp
    qed
    from 1 2 show ?thesis by blast
  qed
qed

lemma label_unique:
  assumes "m @ service_suffix @ q = m' @ service_suffix @ q'"
    "CHR ''.'' \<notin> set m" "CHR ''.'' \<notin> set m'"
  shows "m = m'"
proof -
  obtain t where t: "service_suffix = CHR ''.'' # t" using service_suffix_dot by blast
  have "m = takeWhile (\<lambda>x. x \<noteq> CHR ''.'') (m @ CHR ''.'' # (t @ q))"
    using takeWhile_until [OF assms(2)] by simp
  also have "m @ CHR ''.'' # (t @ q) = m' @ CHR ''.'' # (t @ q')"
    using assms(1) unfolding t by simp
  also have "takeWhile (\<lambda>x. x \<noteq> CHR ''.'') (m' @ CHR ''.'' # (t @ q')) = m'"
    using takeWhile_until [OF assms(3)] by simp
  finally show ?thesis .
qed

lemma region_match_of_leftmost:
  assumes o: "region_occurrence e p m q"
    and least: "\<forall>p' m' q'. region_occurrence e p' m' q' \<longrightarrow> length p \<le> length p'"
  shows "region_match e = Some m"
proof -
  from o region_match_complete [of m q p] obtain m0 where m0: "region_match e = Some m0"
    by (cases "region_match e") auto
  from region_match_leftmost [OF m0] obtain p0 q0 where
    o0: "region_occurrence e p0 m0 q0"
    and least0: "\<forall>p' m' q'. region_occurrence e p' m' q' \<longrightarrow> length p0 \<le> length p'" by blast
  from least o0 have "length p \<le> length p0" by blast
  moreover from least0 o have "length p0 \<le> length p" by blast
  ultimately have len: "length p = length p0" by simp
  from o o0 have "p @ (''.'' @ m @ service_suffix @ q) = p0 @ (''.'' @ m0 @ service_suffix @ q0)"
    by simp
  with len have "''.'' @ m @ service_suffix @ q = ''.'' @ m0 @ service_suffix @ q0"
    using append_eq_append_conv [of p p0] by blast
  then have "m @ service_suffix @ q = m0 @ service_suffix @ q0" by simp
  from label_unique [OF this] o o0 have "m = m0" by simp
  with m0 show ?thesis by simp
qed

lemma region_match_None_iff:
  "(region_match e = None) = (\<nexists>p m q. region_occurrence e p m q)"
proof
  assume n: "region_match e = None"
  show "\<nexists>p m q. region_occurrence e p m q"
  proof
    assume "\<exists>p m q. region_occurrence e p m q"
    then obtain p m q where "region_occurrence e p m q" by blast
    with region_match_complete [of m q p] n show False by simp
  qed
next
  assume n: "\<nexists>p m q. region_occurrence e p m q"
  show "region_match e = None"
  proof (cases "region_match e")
    case None
    then show ?thesis .
  next
    case (Some m)
    from region_match_SomeD [OF this] n show ?thesis by blast
  qed
qed

text \<open>
  Claim C4, as the code has it. A non-empty region option is used as it is. Without one,
  the region is the label of the leftmost occurrence of the pattern in the endpoint string,
  wherever in the string it stands: an endpoint \<open>pre.lab.es.amazonaws.com\<close> followed by
  anything without a line terminator resolves to \<open>lab\<close> when \<open>pre\<close> has no dot, so
  \<open>search-prod.us-west-2.es.amazonaws.com\<close> resolves to \<open>us-west-2\<close>. Exactly when the
  endpoint string has no occurrence, the start-up takes the error branch of lines 85-90,
  which is the only other way the resolution ends.
\<close>

theorem region_resolution:
  "(reg \<noteq> [] \<longrightarrow> resolve_region (Some reg) e = Inr reg)
   \<and> (\<not> truthy r \<longrightarrow>
        (resolve_region r e = Inr m) =
        (\<exists>p q. region_occurrence e p m q
           \<and> (\<forall>p' m' q'. region_occurrence e p' m' q' \<longrightarrow> length p \<le> length p')))
   \<and> (\<not> truthy r \<and> CHR ''.'' \<notin> set pre \<and> lab \<noteq> [] \<and> CHR ''.'' \<notin> set lab
        \<and> \<not> list_ex line_terminator post
      \<longrightarrow> resolve_region r (pre @ ''.'' @ lab @ service_suffix @ post) = Inr lab)
   \<and> resolve_region None ''search-prod.us-west-2.es.amazonaws.com'' = Inr ''us-west-2''
   \<and> (\<not> truthy r \<longrightarrow>
        (resolve_region r e = Inl usage_exit) = (\<nexists>p m q. region_occurrence e p m q))
   \<and> (\<not> truthy r \<longrightarrow> resolve_region r e = Inl usage_exit \<or> (\<exists>m. resolve_region r e = Inr m))"
proof (intro conjI impI)
  assume "reg \<noteq> []"
  then show "resolve_region (Some reg) e = Inr reg" by (simp add: resolve_region_def)
next
  assume nt: "\<not> truthy r"
  show "(resolve_region r e = Inr m) =
        (\<exists>p q. region_occurrence e p m q
           \<and> (\<forall>p' m' q'. region_occurrence e p' m' q' \<longrightarrow> length p \<le> length p'))"
  proof
    assume "resolve_region r e = Inr m"
    then have "region_match e = Some m"
      unfolding resolve_region_inferred [OF nt] by (cases "region_match e") simp_all
    from region_match_leftmost [OF this]
    show "\<exists>p q. region_occurrence e p m q
           \<and> (\<forall>p' m' q'. region_occurrence e p' m' q' \<longrightarrow> length p \<le> length p')" .
  next
    assume "\<exists>p q. region_occurrence e p m q
           \<and> (\<forall>p' m' q'. region_occurrence e p' m' q' \<longrightarrow> length p \<le> length p')"
    then obtain p q where "region_occurrence e p m q"
      "\<forall>p' m' q'. region_occurrence e p' m' q' \<longrightarrow> length p \<le> length p'" by blast
    from region_match_of_leftmost [OF this] show "resolve_region r e = Inr m"
      unfolding resolve_region_inferred [OF nt] by simp
  qed
next
  assume a: "\<not> truthy r \<and> CHR ''.'' \<notin> set pre \<and> lab \<noteq> [] \<and> CHR ''.'' \<notin> set lab
        \<and> \<not> list_ex line_terminator post"
  then have "region_match (pre @ ''.'' @ lab @ service_suffix @ post) = Some lab"
    by (intro region_match_dotfree_prefix) simp_all
  with a show "resolve_region r (pre @ ''.'' @ lab @ service_suffix @ post) = Inr lab"
    by (simp add: resolve_region_inferred)
next
  have "region_match (''search-prod'' @ ''.'' @ ''us-west-2'' @ service_suffix @ []) = Some ''us-west-2''"
    by (intro region_match_dotfree_prefix) simp_all
  then show "resolve_region None ''search-prod.us-west-2.es.amazonaws.com'' = Inr ''us-west-2''"
    by (simp add: resolve_region_def service_suffix_def)
next
  assume nt: "\<not> truthy r"
  show "(resolve_region r e = Inl usage_exit) = (\<nexists>p m q. region_occurrence e p m q)"
    unfolding resolve_region_inferred [OF nt] region_match_None_iff [symmetric]
    by (cases "region_match e") simp_all
next
  assume nt: "\<not> truthy r"
  show "resolve_region r e = Inl usage_exit \<or> (\<exists>m. resolve_region r e = Inr m)"
    unfolding resolve_region_inferred [OF nt] by (cases "region_match e") simp_all
qed

theorem region_resolution_witness:
  "resolve_region (Some ''eu-west-1'') ''localhost:9200'' = Inr ''eu-west-1''
   \<and> resolve_region None ''https://vpc-logs.eu-central-1.es.amazonaws.com/_dashboards'' = Inr ''eu-central-1''
   \<and> resolve_region (Some []) ''localhost:9200'' = Inl usage_exit"
proof -
  have 1: "resolve_region (Some ''eu-west-1'') ''localhost:9200'' = Inr ''eu-west-1''"
    using region_resolution [of "''eu-west-1''" "''localhost:9200''"] by simp
  have "resolve_region None (''https://vpc-logs'' @ ''.'' @ ''eu-central-1'' @ service_suffix @ ''/_dashboards'')
        = Inr ''eu-central-1''"
    using region_resolution [of _ _ None _ "''https://vpc-logs''" "''eu-central-1''" "''/_dashboards''"]
    by (simp add: truthy_def line_terminator_def)
  then have 2: "resolve_region None ''https://vpc-logs.eu-central-1.es.amazonaws.com/_dashboards'' = Inr ''eu-central-1''"
    by (simp add: service_suffix_def)
  have 3: "resolve_region (Some []) ''localhost:9200'' = Inl usage_exit"
    by (simp add: resolve_region_def match_at_dot_def service_suffix_def)
  from 1 2 3 show ?thesis by simp
qed

text \<open>
  The claim as written speaks of the end of the host name. The pattern is not anchored: the
  leftmost occurrence wins over the one at the end, an occurrence in the middle of a host
  name that ends otherwise still resolves a region, and a line terminator behind the host
  name makes the resolution fail.
\<close>

theorem region_leftmost_counterexample:
  "resolve_region None ''a.b.es.amazonaws.com.c.es.amazonaws.com'' = Inr ''b''
   \<and> suffix ''.c.es.amazonaws.com'' ''a.b.es.amazonaws.com.c.es.amazonaws.com''
   \<and> resolve_region None ''search.us-west-2.es.amazonaws.com.evil.org'' = Inr ''us-west-2''
   \<and> \<not> suffix ''.es.amazonaws.com'' ''search.us-west-2.es.amazonaws.com.evil.org''
   \<and> resolve_region None (''search.us-west-2.es.amazonaws.com'' @ [CHR 0x0A]) = Inl usage_exit"
  by (simp add: resolve_region_def match_at_dot_def service_suffix_def line_terminator_def
      suffix_to_prefix)

section \<open>The request pipeline\<close>

lemmas url_defs =
  URL_new_def url_input_def c0_control_or_space_def tab_or_newline_def scheme_start_state_def
  is_alpha_def is_digit_def to_lower_def upper_case_def lower_case_def

lemma demo_url:
  "URL_new simple_lib ''https://search-prod.us-west-2.es.amazonaws.com''
   = Inr \<lparr> protocol = ''https:'', hostname = ''search-prod.us-west-2.es.amazonaws.com'' \<rparr>"
  by (simp add: url_defs simple_lib_def simple_url_after_scheme_def special_schemes_def
      host_end_def)

lemma localhost_url:
  "URL_new simple_lib ''localhost:9200'' = Inr \<lparr> protocol = ''localhost:'', hostname = [] \<rparr>"
  "URL_new simple_lib ''https://localhost:9200'' = Inr \<lparr> protocol = ''https:'', hostname = ''localhost'' \<rparr>"
  by (simp_all add: url_defs simple_lib_def simple_url_after_scheme_def special_schemes_def
      host_end_def)

lemma schemeless_url:
  "URL_new l ''search-prod.us-west-2.es.amazonaws.com'' = Inl TypeError"
  by (simp add: url_defs)


lemma lower_content_sha: "lower_string ''x-amz-content-sha256'' = ''x-amz-content-sha256''"
  by (simp add: lower_string_def to_lower_def upper_case_def lower_case_def)

lemma map_of_filter_keep:
  "P k \<Longrightarrow> map_of (filter (\<lambda>kv. P (fst kv)) xs) k = map_of xs k"
  by (induction xs) auto

lemma map_of_include:
  "k \<notin> set names \<Longrightarrow>
   map_of (fold (\<lambda>n hs. case f n of None \<Rightarrow> hs | Some v \<Rightarrow> AList.update n v hs) names hs0) k
   = map_of hs0 k"
proof (induction names arbitrary: hs0)
  case Nil
  then show ?case by simp
next
  case (Cons n names)
  then show ?case by (cases "f n") (simp_all add: update_conv')
qed

lemma canonical_Host:
  "map_of (sr_headers (canonical_request l u rq buf)) ''Host'' = Some (hostname u)"
proof -
  have "''Host'' \<notin> set headersToInclude" by (simp add: headersToInclude_def)
  from map_of_include [OF this, of "req_headers rq"] show ?thesis by (simp add: canonical_request_def)
qed

lemma canonical_content_sha:
  "map_of (sr_headers (canonical_request l u rq buf)) ''x-amz-content-sha256''
   = Some (sha256_hex l buf)"
proof -
  have "''x-amz-content-sha256'' \<notin> set headersToInclude" by (simp add: headersToInclude_def)
  from map_of_include [OF this, of "req_headers rq"] show ?thesis by (simp add: canonical_request_def)
qed

lemma canonical_body: "sr_body (canonical_request l u rq buf) = buf"
  by (simp add: canonical_request_def)

lemma sign_keeps_content_sha:
  assumes "SignatureV4_sign l w r = Inr signed"
    and "map_of (sr_headers r) ''x-amz-content-sha256'' = Some (sha256_hex l (sr_body r))"
  shows "map_of signed ''x-amz-content-sha256'' = Some (sha256_hex l (sr_body r))"
proof -
  let ?k = "''x-amz-content-sha256''"
  define h0 where "h0 = filter (\<lambda>kv. lower_string (fst kv) \<notin> set generated_headers) (sr_headers r)"
  define h1 where "h1 = AList.update ''x-amz-date'' (amz_date w) h0"
  define h2 where "h2 = (case session_token w of None \<Rightarrow> h1
     | Some t \<Rightarrow> if t = [] then h1 else AList.update ''x-amz-security-token'' t h1)"
  define h3 where "h3 = (if has_header ?k h2 then h2
     else AList.update ?k (sha256_hex l (sr_body r)) h2)"
  have "lower_string ?k \<notin> set generated_headers"
    by (simp add: lower_content_sha generated_headers_def)
  then have 0: "map_of h0 ?k = Some (sha256_hex l (sr_body r))"
    unfolding h0_def using assms(2)
    by (simp add: map_of_filter_keep [where P = "\<lambda>k. lower_string k \<notin> set generated_headers"])
  have 1: "map_of h1 ?k = Some (sha256_hex l (sr_body r))"
    unfolding h1_def using 0 by (simp add: update_conv')
  have 2: "map_of h2 ?k = Some (sha256_hex l (sr_body r))"
    unfolding h2_def using 1 by (simp add: update_conv' split: option.splits)
  have 3: "map_of h3 ?k = Some (sha256_hex l (sr_body r))"
    unfolding h3_def using 2 by (simp add: update_conv')
  have "signed = AList.update ''authorization'' (authorization_of w (r\<lparr>sr_headers := h3\<rparr>)) h3"
    using assms(1) unfolding SignatureV4_sign_def h3_def h2_def h1_def h0_def Let_def
    by (simp split: if_splits)
  then show ?thesis using 3 by (simp add: update_conv')
qed

lemma apply_signed_content_sha:
  "apply_signed hs signed ''x-amz-content-sha256'' = map_of signed ''x-amz-content-sha256''"
  by (simp add: apply_signed_def Let_def)

lemma sign_and_forward_ForwardedD:
  assumes "sign_and_forward l cfg w rq body = (Forwarded fw, evs)"
  shows "\<exists>u buf signed. URL_new l (ENDPOINT cfg) = Inr u \<and> to_buffer body = Inr buf
     \<and> SignatureV4_sign l w (canonical_request l u rq buf) = Inr signed
     \<and> fw = \<lparr> fwd_target = TARGET cfg, fwd_method = req_method rq, fwd_url = req_url rq,
              fwd_headers = apply_signed (req_headers rq) signed,
              fwd_buffer = buffer_stream body \<rparr>
     \<and> evs = [SignRequest (canonical_request l u rq buf), UpstreamCall]"
  using assms unfolding sign_and_forward_def internal_server_error_def
  by (simp split: sum.splits)


lemma app_cases:
  "(\<exists>status. bodyParser_raw l cfg rq = Inl status \<and> app l cfg w rq = (ErrorReply status, []))
   \<or> (\<exists>body. bodyParser_raw l cfg rq = Inr body \<and>
        (app l cfg w rq = (ErrorReply 500, [ResolveCredentials])
         \<or> app l cfg w rq = (Reply 200 [(''Content-Type'', ''text/plain'')] ''ok'', [ResolveCredentials])
         \<or> app l cfg w rq = (Reply 401 [(''WWW-Authenticate'', ''Basic'')] [], [ResolveCredentials])
         \<or> app l cfg w rq = handle l cfg w rq body))"
  unfolding app_def
  by (simp split: sum.splits option.splits auth_result.splits)

lemma app_ForwardedD:
  assumes "app l cfg w rq = (Forwarded fw, tr)"
  shows "\<exists>body evs. bodyParser_raw l cfg rq = Inr body
     \<and> sign_and_forward l cfg w rq body = (Forwarded fw, evs) \<and> tr = ResolveCredentials # evs"
proof -
  from app_cases [of l cfg rq w] assms
  obtain body where b: "bodyParser_raw l cfg rq = Inr body"
    and h: "handle l cfg w rq body = (Forwarded fw, tr)"
    by auto
  from h have "sign_and_forward l cfg w rq body = (Forwarded fw, tl tr) \<and> tr = ResolveCredentials # tl tr"
    unfolding handle_def by (cases "sign_and_forward l cfg w rq body") auto
  with b show ?thesis by blast
qed

lemma lower_identity: "lower_string ''identity'' = ''identity''"
  by (simp add: lower_string_def to_lower_def upper_case_def lower_case_def)

lemma identity_stream:
  "req_headers rq ''content-encoding'' = None \<Longrightarrow> contentstream l rq wire = Inr (Complete wire)"
  by (simp add: contentstream_def content_encoding_def lower_identity)

lemma bodyParser_raw_None:
  "req_body rq = None \<Longrightarrow> bodyParser_raw l cfg rq = Inr body \<Longrightarrow> body = EmptyObject \<or> body = Undefined"
  unfolding bodyParser_raw_def by (simp split: if_splits)

lemma bodyParser_raw_SomeD:
  assumes "req_body rq = Some wire" "bodyParser_raw l cfg rq = Inr body"
  shows "\<exists>b. body = Buffer b \<and> contentstream l rq wire = Inr (Complete b)
           \<and> \<not> exceeds (effective_limit l cfg) (length b)"
  using assms unfolding bodyParser_raw_def getBody_def
  by (simp split: sum.splits stream_result.splits if_splits)

lemma bodyParser_raw_accepts:
  assumes "req_body rq = Some wire" "contentstream l rq wire = Inr (Complete data)"
    "\<not> exceeds (effective_limit l cfg) (length data)"
  shows "bodyParser_raw l cfg rq = Inr (Buffer data)"
  using assms unfolding bodyParser_raw_def getBody_def by simp

lemma bodyParser_raw_rejects:
  assumes "req_body rq = Some wire" "contentstream l rq wire = Inr (Complete data)"
    "exceeds (effective_limit l cfg) (length data)"
  shows "bodyParser_raw l cfg rq = Inl 413"
  using assms unfolding bodyParser_raw_def getBody_def by simp

lemma sign_succeeds:
  "signer_credentials_ok w \<Longrightarrow> \<exists>signed. SignatureV4_sign l w r = Inr signed"
  by (simp add: SignatureV4_sign_def Let_def)

lemma sign_and_forward_succeeds:
  assumes "URL_new l (ENDPOINT cfg) = Inr u" "to_buffer body = Inr buf" "signer_credentials_ok w"
  shows "\<exists>fw. sign_and_forward l cfg w rq body
            = (Forwarded fw, [SignRequest (canonical_request l u rq buf), UpstreamCall])
          \<and> fwd_buffer fw = buffer_stream body \<and> fwd_target fw = TARGET cfg"
proof -
  from sign_succeeds [OF assms(3)] obtain signed where
    "SignatureV4_sign l w (canonical_request l u rq buf) = Inr signed" by blast
  then show ?thesis unfolding sign_and_forward_def using assms(1,2) by simp
qed

lemma app_reaches_handler:
  assumes "bodyParser_raw l cfg rq = Inr body" "credentials_ok w" "\<not> health_route l cfg rq"
    "users cfg = None \<or> (\<exists>reg. users cfg = Some reg \<and> basicAuth reg (req_auth rq) = Authorized)"
  shows "app l cfg w rq = handle l cfg w rq body"
  using assms unfolding app_def by auto

lemma simple_lib_sel:
  "route_match simple_lib = (\<lambda>h u. takeWhile (\<lambda>c. c \<noteq> CHR ''?'') u = h)"
  "sha256_hex simple_lib = (\<lambda>b. ''digest-of:'' @ b)"
  "bytes_parse simple_lib ''8b'' = Some 8"
  "absent_body_is_object simple_lib = False"
  by (simp_all add: simple_lib_def)

lemma simple_world_sel:
  "credentials_ok simple_world" "signer_credentials_ok simple_world"
  "session_token simple_world = None"
  by (simp_all add: simple_world_def)

lemma demo_limit: "effective_limit simple_lib demo_config = Some 8"
  by (simp add: effective_limit_def demo_config_def simple_lib_sel)

lemma demo_headers: "req_headers demo_request = Map.empty"
  by (simp add: demo_request_def)

lemma demo_post_parsed:
  "bodyParser_raw simple_lib demo_config
     (demo_request\<lparr>req_method := ''POST'', req_url := ''/_search'', req_body := Some ''12345678''\<rparr>)
   = Inr (Buffer ''12345678'')"
proof -
  let ?rq = "demo_request\<lparr>req_method := ''POST'', req_url := ''/_search'', req_body := Some ''12345678''\<rparr>"
  have b: "req_body ?rq = Some ''12345678''" by simp
  have "req_headers ?rq ''content-encoding'' = None" by (simp add: demo_headers)
  from identity_stream [OF this] have s: "contentstream simple_lib ?rq ''12345678'' = Inr (Complete ''12345678'')" .
  have "\<not> exceeds (effective_limit simple_lib demo_config) (length ''12345678'')"
    by (simp add: demo_limit exceeds_def)
  from bodyParser_raw_accepts [OF b s this] show ?thesis .
qed

lemma demo_post_forwarded:
  "\<exists>fw tr. app simple_lib demo_config simple_world
      (demo_request\<lparr>req_method := ''POST'', req_url := ''/_search'', req_body := Some ''12345678''\<rparr>)
    = (Forwarded fw, tr)"
proof -
  let ?rq = "demo_request\<lparr>req_method := ''POST'', req_url := ''/_search'', req_body := Some ''12345678''\<rparr>"
  note bp = demo_post_parsed
  have nh: "\<not> health_route simple_lib demo_config ?rq"
    by (simp add: health_route_def demo_config_def demo_request_def)
  have "users demo_config = None" by (simp add: demo_config_def)
  with app_reaches_handler [OF bp simple_world_sel(1) nh]
  have a: "app simple_lib demo_config simple_world ?rq
           = handle simple_lib demo_config simple_world ?rq (Buffer ''12345678'')" by simp
  have u: "URL_new simple_lib (ENDPOINT demo_config)
           = Inr \<lparr> protocol = ''https:'', hostname = ''search-prod.us-west-2.es.amazonaws.com'' \<rparr>"
    using demo_url by (simp add: demo_config_def)
  have tb: "to_buffer (Buffer ''12345678'') = Inr ''12345678''" by (simp add: to_buffer_def)
  from sign_and_forward_succeeds [OF u tb simple_world_sel(2), of ?rq] a
  show ?thesis unfolding handle_def by auto
qed

text \<open>
  Claim C1. Whenever a request is handed to the proxy, its body passed the size limit and
  the \<^verbatim>\<open>x-amz-content-sha256\<close> header on the forwarded request is the hex digest of
  exactly the bytes that go upstream. For a request with a body these bytes are the body as
  the body parser read and buffered it (the wire bytes when the request names no content
  encoding, the inflated bytes of a compressed request), passed explicitly as
  \<^verbatim>\<open>options.buffer\<close>; a request without a body passes no buffer and sends no bytes.
\<close>

theorem content_hash_of_forwarded_body:
  assumes "app l cfg w rq = (Forwarded fw, tr)"
  shows "within_limit l cfg rq
     \<and> fwd_headers fw ''x-amz-content-sha256'' = Some (sha256_hex l (upstream_body fw))
     \<and> (\<forall>wire. req_body rq = Some wire \<longrightarrow>
          (\<exists>b. contentstream l rq wire = Inr (Complete b)
             \<and> bodyParser_raw l cfg rq = Inr (Buffer b)
             \<and> fwd_buffer fw = Some b \<and> upstream_body fw = b))
     \<and> (\<forall>wire. req_body rq = Some wire \<and> req_headers rq ''content-encoding'' = None \<longrightarrow>
          fwd_buffer fw = Some wire \<and> upstream_body fw = wire)
     \<and> (req_body rq = None \<longrightarrow> fwd_buffer fw = None \<and> upstream_body fw = [])"
proof -
  from app_ForwardedD [OF assms] obtain body evs where
    bp: "bodyParser_raw l cfg rq = Inr body"
    and sf: "sign_and_forward l cfg w rq body = (Forwarded fw, evs)" by blast
  from sign_and_forward_ForwardedD [OF sf] obtain u buf signed where
    tb: "to_buffer body = Inr buf"
    and sg: "SignatureV4_sign l w (canonical_request l u rq buf) = Inr signed"
    and fw: "fw = \<lparr> fwd_target = TARGET cfg, fwd_method = req_method rq, fwd_url = req_url rq,
              fwd_headers = apply_signed (req_headers rq) signed,
              fwd_buffer = buffer_stream body \<rparr>" by blast
  have up: "upstream_body fw = buf"
    using tb unfolding fw upstream_body_def to_buffer_def buffer_stream_def
    by (cases body) simp_all
  have "map_of signed ''x-amz-content-sha256'' = Some (sha256_hex l buf)"
    using sign_keeps_content_sha [OF sg] by (simp add: canonical_content_sha canonical_body)
  then have hdr: "fwd_headers fw ''x-amz-content-sha256'' = Some (sha256_hex l (upstream_body fw))"
    unfolding up by (simp add: fw apply_signed_content_sha)
  have wl: "within_limit l cfg rq" unfolding within_limit_def bp by simp
  have some: "\<exists>b. contentstream l rq wire = Inr (Complete b)
             \<and> bodyParser_raw l cfg rq = Inr (Buffer b)
             \<and> fwd_buffer fw = Some b \<and> upstream_body fw = b" if "req_body rq = Some wire" for wire
  proof -
    from bodyParser_raw_SomeD [OF that bp] obtain b where
      b: "body = Buffer b" "contentstream l rq wire = Inr (Complete b)" by blast
    have "fwd_buffer fw = Some b \<and> upstream_body fw = b"
      unfolding upstream_body_def fw buffer_stream_def b(1) by simp
    with b bp show ?thesis by blast
  qed
  have ident: "fwd_buffer fw = Some wire \<and> upstream_body fw = wire"
    if "req_body rq = Some wire \<and> req_headers rq ''content-encoding'' = None" for wire
  proof -
    from that some [of wire] obtain b where
      b: "contentstream l rq wire = Inr (Complete b)" "fwd_buffer fw = Some b \<and> upstream_body fw = b"
      by blast
    from that identity_stream [of rq l wire] b(1) have "b = wire" by simp
    with b(2) show ?thesis by simp
  qed
  have none: "fwd_buffer fw = None \<and> upstream_body fw = []" if "req_body rq = None"
  proof -
    from bodyParser_raw_None [OF that bp] tb have "body = Undefined"
      by (auto simp: to_buffer_def)
    then show ?thesis unfolding upstream_body_def fw buffer_stream_def by simp
  qed
  from wl hdr some ident none show ?thesis by blast
qed

theorem content_hash_of_forwarded_body_witness:
  "\<exists>fw tr. app simple_lib demo_config simple_world
      (demo_request\<lparr>req_method := ''POST'', req_url := ''/_search'', req_body := Some ''12345678''\<rparr>)
      = (Forwarded fw, tr)
    \<and> fwd_headers fw ''x-amz-content-sha256'' = Some (sha256_hex simple_lib ''12345678'')
    \<and> fwd_buffer fw = Some ''12345678''"
proof -
  let ?rq = "demo_request\<lparr>req_method := ''POST'', req_url := ''/_search'', req_body := Some ''12345678''\<rparr>"
  from demo_post_forwarded obtain fw tr where
    a: "app simple_lib demo_config simple_world ?rq = (Forwarded fw, tr)" by blast
  have b: "req_body ?rq = Some ''12345678'' \<and> req_headers ?rq ''content-encoding'' = None"
    by (simp add: demo_headers)
  from content_hash_of_forwarded_body [OF a] b
  have "fwd_headers fw ''x-amz-content-sha256'' = Some (sha256_hex simple_lib (upstream_body fw))"
    and "fwd_buffer fw = Some ''12345678'' \<and> upstream_body fw = ''12345678''"
    by blast+
  with a show ?thesis by auto
qed

lemma handle_trace:
  "\<exists>r evs. handle l cfg w rq body = (r, ResolveCredentials # evs)"
  by (simp add: handle_def)

lemma handle_not_error: "fst (handle l cfg w rq body) \<noteq> ErrorReply n"
  unfolding handle_def sign_and_forward_def internal_server_error_def
  by (simp split: sum.splits)

lemma app_passed_body:
  assumes "bodyParser_raw l cfg rq = Inr body"
  shows "\<exists>r evs. app l cfg w rq = (r, ResolveCredentials # evs) \<and> r \<noteq> ErrorReply 413"
proof -
  from app_cases [of l cfg rq w] assms
  consider "app l cfg w rq = (ErrorReply 500, [ResolveCredentials])"
    | "app l cfg w rq = (Reply 200 [(''Content-Type'', ''text/plain'')] ''ok'', [ResolveCredentials])"
    | "app l cfg w rq = (Reply 401 [(''WWW-Authenticate'', ''Basic'')] [], [ResolveCredentials])"
    | "app l cfg w rq = handle l cfg w rq body"
    by auto
  then show ?thesis
  proof cases
    case 4
    from handle_trace [of l cfg w rq body] obtain r evs where
      h: "handle l cfg w rq body = (r, ResolveCredentials # evs)" by blast
    with handle_not_error [of l cfg w rq body 413] have "r \<noteq> ErrorReply 413" by simp
    with 4 h show ?thesis by simp
  qed simp_all
qed

text \<open>
  Claim C7, as the code has it. The body whose size the limit bounds is the body as the
  parser reads it: the wire bytes of a request that names no content encoding, the
  inflated bytes of a compressed one that the decoder inflates completely. With a limit
  configured, such a body of exactly that many bytes is stored unchanged, the request goes
  on to the credential stage and is not answered 413 (and when every later stage succeeds
  it is forwarded with the whole body); a body one byte longer is answered with the error
  413 before anything else happens: no credential resolution, no signing, no upstream call.
\<close>

theorem body_limit_boundary:
  assumes "effective_limit l cfg = Some limit" "req_body rq = Some wire"
    "contentstream l rq wire = Inr (Complete data)"
  shows "(real (length data) = limit \<longrightarrow>
            bodyParser_raw l cfg rq = Inr (Buffer data)
            \<and> (\<exists>r evs. app l cfg w rq = (r, ResolveCredentials # evs) \<and> r \<noteq> ErrorReply 413))
       \<and> (real (length data) = limit \<and> credentials_ok w \<and> \<not> health_route l cfg rq
            \<and> users cfg = None \<and> URL_new l (ENDPOINT cfg) = Inr u \<and> signer_credentials_ok w \<longrightarrow>
            (\<exists>fw tr. app l cfg w rq = (Forwarded fw, tr) \<and> upstream_body fw = data))
       \<and> (real (length data) = limit + 1 \<longrightarrow> app l cfg w rq = (ErrorReply 413, []))
       \<and> (req_headers rq ''content-encoding'' = None \<longrightarrow> data = wire)"
proof (intro conjI impI)
  assume eq: "real (length data) = limit"
  then have "\<not> exceeds (effective_limit l cfg) (length data)"
    by (simp add: exceeds_def assms(1))
  from bodyParser_raw_accepts [OF assms(2,3) this]
  show bp: "bodyParser_raw l cfg rq = Inr (Buffer data)" .
  from app_passed_body [OF bp]
  show "\<exists>r evs. app l cfg w rq = (r, ResolveCredentials # evs) \<and> r \<noteq> ErrorReply 413" .
next
  assume a: "real (length data) = limit \<and> credentials_ok w \<and> \<not> health_route l cfg rq
            \<and> users cfg = None \<and> URL_new l (ENDPOINT cfg) = Inr u \<and> signer_credentials_ok w"
  then have "\<not> exceeds (effective_limit l cfg) (length data)"
    by (simp add: exceeds_def assms(1))
  from bodyParser_raw_accepts [OF assms(2,3) this]
  have bp: "bodyParser_raw l cfg rq = Inr (Buffer data)" .
  from a have h: "app l cfg w rq = handle l cfg w rq (Buffer data)"
    by (intro app_reaches_handler [OF bp]) simp_all
  have tb: "to_buffer (Buffer data) = Inr data" by (simp add: to_buffer_def)
  from a have u: "URL_new l (ENDPOINT cfg) = Inr u" and s: "signer_credentials_ok w" by simp_all
  from sign_and_forward_succeeds [OF u tb s, of rq] obtain fw where
    f: "sign_and_forward l cfg w rq (Buffer data)
        = (Forwarded fw, [SignRequest (canonical_request l u rq data), UpstreamCall])"
    and fb: "fwd_buffer fw = buffer_stream (Buffer data)" by blast
  have "upstream_body fw = data" by (simp add: upstream_body_def fb buffer_stream_def)
  with h f show "\<exists>fw tr. app l cfg w rq = (Forwarded fw, tr) \<and> upstream_body fw = data"
    by (simp add: handle_def)
next
  assume "real (length data) = limit + 1"
  then have "exceeds (effective_limit l cfg) (length data)"
    by (simp add: exceeds_def assms(1))
  from bodyParser_raw_rejects [OF assms(2,3) this]
  show "app l cfg w rq = (ErrorReply 413, [])" by (simp add: app_def)
next
  assume "req_headers rq ''content-encoding'' = None"
  from identity_stream [OF this, of l wire] assms(3) show "data = wire" by simp
qed

lemma demo_stream:
  "contentstream simple_lib (demo_request\<lparr>req_body := b\<rparr>) wire = Inr (Complete wire)"
  by (intro identity_stream) (simp add: demo_headers)

lemma demo_deflate_stream:
  "contentstream simple_lib
     (demo_request\<lparr>req_headers := [''content-encoding'' \<mapsto> ''deflate''], req_body := b\<rparr>) wire
   = Inr (Complete (wire @ wire))"
  by (simp add: contentstream_def content_encoding_def lower_string_def to_lower_def
      upper_case_def lower_case_def simple_lib_def)

theorem body_limit_boundary_witness:
  "bodyParser_raw simple_lib demo_config (demo_request\<lparr>req_body := Some ''12345678''\<rparr>)
     = Inr (Buffer ''12345678'')
   \<and> app simple_lib demo_config simple_world (demo_request\<lparr>req_body := Some ''123456789''\<rparr>)
     = (ErrorReply 413, [])
   \<and> bodyParser_raw simple_lib demo_config
       (demo_request\<lparr>req_headers := [''content-encoding'' \<mapsto> ''deflate''], req_body := Some ''1234''\<rparr>)
     = Inr (Buffer ''12341234'')"
proof -
  have 1: "req_body (demo_request\<lparr>req_body := Some ''12345678''\<rparr>) = Some ''12345678''"
    and 2: "req_body (demo_request\<lparr>req_body := Some ''123456789''\<rparr>) = Some ''123456789''"
    and 3: "req_body (demo_request\<lparr>req_headers := [''content-encoding'' \<mapsto> ''deflate''],
                req_body := Some ''1234''\<rparr>) = Some ''1234''"
    by simp_all
  from body_limit_boundary [OF demo_limit 1 demo_stream]
    body_limit_boundary [OF demo_limit 2 demo_stream, of simple_world]
    body_limit_boundary [OF demo_limit 3 demo_deflate_stream]
  show ?thesis by simp
qed

text \<open>
  The claim as written speaks of the size of the request body. A body of exactly the limit
  sent in a content encoding that the parser does not know is refused with the error 415,
  and a compressed body of exactly the limit on the wire is answered 413 when it inflates
  to more.
\<close>

theorem body_limit_counterexample:
  "effective_limit simple_lib demo_config = Some 8
   \<and> length ''12345678'' = 8
   \<and> app simple_lib demo_config simple_world
       (demo_request\<lparr>req_headers := [''content-encoding'' \<mapsto> ''zstd''],
                      req_body := Some ''12345678''\<rparr>)
     = (ErrorReply 415, [])
   \<and> app simple_lib demo_config simple_world
       (demo_request\<lparr>req_headers := [''content-encoding'' \<mapsto> ''deflate''],
                      req_body := Some ''12345678''\<rparr>)
     = (ErrorReply 413, [])"
proof -
  have "contentstream simple_lib
          (demo_request\<lparr>req_headers := [''content-encoding'' \<mapsto> ''zstd''],
                         req_body := Some ''12345678''\<rparr>) ''12345678'' = Inl 415"
    by (simp add: contentstream_def content_encoding_def lower_string_def to_lower_def
        upper_case_def lower_case_def simple_lib_def)
  then have 1: "app simple_lib demo_config simple_world
       (demo_request\<lparr>req_headers := [''content-encoding'' \<mapsto> ''zstd''],
                      req_body := Some ''12345678''\<rparr>)
     = (ErrorReply 415, [])"
    by (simp add: app_def bodyParser_raw_def)
  have b: "req_body (demo_request\<lparr>req_headers := [''content-encoding'' \<mapsto> ''deflate''],
                      req_body := Some ''12345678''\<rparr>) = Some ''12345678''" by simp
  have "exceeds (effective_limit simple_lib demo_config) (length (''12345678'' @ ''12345678''))"
    by (simp add: exceeds_def demo_limit)
  from bodyParser_raw_rejects [OF b demo_deflate_stream this]
  have 2: "app simple_lib demo_config simple_world
       (demo_request\<lparr>req_headers := [''content-encoding'' \<mapsto> ''deflate''],
                      req_body := Some ''12345678''\<rparr>)
     = (ErrorReply 413, [])"
    by (simp add: app_def)
  from demo_limit 1 2 show ?thesis by simp
qed

section \<open>Health check and Basic-Auth\<close>














section \<open>Endpoint, target and signing host\<close>












lemma demo_startup:
  "startup demo_env demo_cli
   = Inr \<lparr> ENDPOINT = ''search-prod.us-west-2.es.amazonaws.com'',
           TARGET = ''https://search-prod.us-west-2.es.amazonaws.com'',
           REGION = ''us-west-2'', REQ_LIMIT = Some (JString ''10000kb''), HEALTH = None,
           users = Some (''root'', Some ''envpw''), PROFILE = None \<rparr>"
proof -
  have "region_match (''search-prod'' @ ''.'' @ ''us-west-2'' @ service_suffix @ []) = Some ''us-west-2''"
    by (intro region_match_dotfree_prefix) simp_all
  then have r: "region_match ''search-prod.us-west-2.es.amazonaws.com'' = Some ''us-west-2''"
    by (simp add: service_suffix_def)
  show ?thesis
    by (simp add: startup_def parse_argv_def demo_env_def demo_cli_def yargs_option_def js_or_def
        yargs_untyped_def truthy_value_def
        truthy_def endpoint_of_def first_positional_def resolve_region_def r make_target_def
        has_http_scheme_def register_users_def property_key_def Let_def
        del: region_match.simps)
qed

text \<open>
  Claim C3 fails on the code. With the endpoint of the README's basic usage, which has no
  scheme, the target gets \<^verbatim>\<open>https://\<close> prepended, but the handler parses the endpoint
  itself: \<^verbatim>\<open>new URL\<close> throws for every library and every request, no request object is
  built, nothing is signed, and the answer is 500, although the credentials resolve and the
  target is a well-formed URL. With the endpoint \<^verbatim>\<open>localhost:9200\<close> the endpoint does
  parse, as a URL of the scheme \<^verbatim>\<open>localhost\<close>: the \<^verbatim>\<open>Host\<close> header given to the signer is
  empty, while the target is \<^verbatim>\<open>https://localhost:9200\<close> with the host name localhost.
\<close>

theorem schemeless_endpoint_fails:
  "(case startup demo_env demo_cli of
      Inl x \<Rightarrow> False
    | Inr cfg \<Rightarrow>
        ENDPOINT cfg = ''search-prod.us-west-2.es.amazonaws.com''
        \<and> TARGET cfg = ''https://search-prod.us-west-2.es.amazonaws.com''
        \<and> URL_new l (ENDPOINT cfg) = Inl TypeError
        \<and> sign_and_forward l cfg w rq body = (Reply 500 [] ''Internal Server Error'', []))
   \<and> make_target ''localhost:9200'' = ''https://localhost:9200''
   \<and> URL_new simple_lib (make_target ''localhost:9200'')
       = Inr \<lparr> protocol = ''https:'', hostname = ''localhost'' \<rparr>
   \<and> URL_new simple_lib ''localhost:9200'' = Inr \<lparr> protocol = ''localhost:'', hostname = [] \<rparr>
   \<and> map_of (sr_headers (canonical_request simple_lib
                \<lparr> protocol = ''localhost:'', hostname = [] \<rparr> rq buf)) ''Host'' = Some []"
proof -
  have t: "make_target ''localhost:9200'' = ''https://localhost:9200''"
    by (simp add: make_target_def has_http_scheme_def)
  show ?thesis unfolding t
    by (simp add: demo_startup schemeless_url sign_and_forward_def internal_server_error_def
        localhost_url canonical_Host)
qed

text \<open>
  Claim C5 fails on the code. Started with \<^verbatim>\<open>-u alice -a secret\<close> by the user root with
  \<^verbatim>\<open>AUTH_PASSWORD=envpw\<close>, the registered pair is the one of the environment
  (\<^verbatim>\<open>USER\<close>, then \<^verbatim>\<open>AUTH_USER\<close>; \<^verbatim>\<open>PASSWORD\<close>, then \<^verbatim>\<open>AUTH_PASSWORD\<close>): the pair
  of the flags is rejected and root with envpw is accepted.
\<close>

theorem registered_pair_from_environment:
  "(case startup demo_env demo_cli of
      Inl x \<Rightarrow> False
    | Inr cfg \<Rightarrow>
        flag_u demo_cli = Some (JString ''alice'') \<and> flag_a demo_cli = Some (JString ''secret'')
        \<and> users cfg = Some (''root'', Some ''envpw'')
        \<and> basicAuth (''root'', Some ''envpw'') (Some (''alice'', ''secret'')) = Unauthorized
        \<and> basicAuth (''root'', Some ''envpw'') (Some (''root'', ''envpw'')) = Authorized)"
proof -
  have f: "flag_u demo_cli = Some (JString ''alice'')" "flag_a demo_cli = Some (JString ''secret'')"
    by (simp_all add: demo_cli_def)
  show ?thesis by (simp add: demo_startup basicAuth_def f)
qed

section \<open>The cache-control hook and the relayed response\<close>

lemma static_asset_match_iff:
  "static_asset_match u =
   (\<exists>pre ext post. ext \<in> set asset_words \<and> u = pre @ ''.'' @ ext @ post)"
proof (induction u)
  case Nil
  then show ?case by simp
next
  case (Cons c u)
  show ?case
  proof
    assume "static_asset_match (c # u)"
    then consider (here) "c = CHR ''.''" "list_ex (\<lambda>word. prefix word u) asset_words"
      | (later) "static_asset_match u" by auto
    then show "\<exists>pre ext post. ext \<in> set asset_words \<and> c # u = pre @ ''.'' @ ext @ post"
    proof cases
      case here
      then obtain ext post where "ext \<in> set asset_words" "u = ext @ post"
        unfolding prefix_def list_ex_iff by blast
      with here(1) have "ext \<in> set asset_words \<and> c # u = [] @ ''.'' @ ext @ post"
        by simp
      then show ?thesis by blast
    next
      case later
      with Cons.IH obtain pre ext post where
        "ext \<in> set asset_words" "u = pre @ ''.'' @ ext @ post" by blast
      then have "ext \<in> set asset_words \<and> c # u = (c # pre) @ ''.'' @ ext @ post"
        by simp
      then show ?thesis by blast
    qed
  next
    assume "\<exists>pre ext post. ext \<in> set asset_words \<and> c # u = pre @ ''.'' @ ext @ post"
    then obtain pre ext post where e: "ext \<in> set asset_words"
      and d: "c # u = pre @ ''.'' @ ext @ post" by blast
    show "static_asset_match (c # u)"
    proof (cases pre)
      case Nil
      with d have "c = CHR ''.''" "u = ext @ post" by simp_all
      moreover from e have "list_ex (\<lambda>word. prefix word (ext @ post)) asset_words"
        unfolding list_ex_iff by (intro bexI [of _ ext]) simp_all
      ultimately show ?thesis by simp
    next
      case (Cons p pre')
      with d have "u = pre' @ ''.'' @ ext @ post" by simp
      with e Cons.IH have "static_asset_match u" by blast
      then show ?thesis by simp
    qed
  qed
qed

lemma outgoing_headers_other:
  "k \<noteq> ''connection'' \<Longrightarrow> k \<noteq> ''transfer-encoding'' \<Longrightarrow> outgoing_headers rq hs k = hs k"
  by (simp add: outgoing_headers_def)

lemma outgoing_headers_absent:
  "k \<noteq> ''connection'' \<Longrightarrow> hs k = None \<Longrightarrow> outgoing_headers rq hs k = None"
  by (simp add: outgoing_headers_def)

lemma hook_other:
  "k \<noteq> ''cache-control'' \<Longrightarrow> res_headers (proxyRes_hook rq res) k = res_headers res k"
  by (simp add: proxyRes_hook_def)

text \<open>
  Claim C8, as the code has it. The hook sets \<^verbatim>\<open>Cache-Control: public, max-age=86400\<close> on
  the response exactly when the request URL (path and query) contains a dot followed by
  css, js, img or font at any position. The hook runs before http-proxy copies the upstream
  headers: the relayed response carries the upstream's own Cache-Control when it sent one,
  and otherwise the hook's header exactly when the URL matches. Every header the upstream
  sent, apart from Connection and Transfer-Encoding which http-proxy manages, is relayed
  with its value, a header the upstream did not send stays as the middleware left it, and
  the status and the body are the upstream's.
\<close>

theorem cache_control_relayed:
  "res_headers (proxyRes_hook rq res) ''cache-control''
     = (if static_asset_match (req_url rq) then Some ''public, max-age=86400''
        else res_headers res ''cache-control'')
   \<and> static_asset_match (req_url rq)
     = (\<exists>pre ext post. ext \<in> set asset_words \<and> req_url rq = pre @ ''.'' @ ext @ post)
   \<and> res_headers (relay rq res proxyRes) ''cache-control''
     = (case res_headers proxyRes ''cache-control'' of
          Some v \<Rightarrow> Some v
        | None \<Rightarrow> if static_asset_match (req_url rq) then Some ''public, max-age=86400''
                  else res_headers res ''cache-control'')
   \<and> (\<forall>k v. res_headers proxyRes k = Some v \<and> k \<noteq> ''connection'' \<and> k \<noteq> ''transfer-encoding''
        \<longrightarrow> res_headers (relay rq res proxyRes) k = Some v)
   \<and> (\<forall>k. res_headers proxyRes k = None \<and> k \<noteq> ''connection'' \<and> k \<noteq> ''cache-control''
        \<longrightarrow> res_headers (relay rq res proxyRes) k = res_headers res k)
   \<and> res_status (relay rq res proxyRes) = res_status proxyRes
   \<and> res_body (relay rq res proxyRes) = res_body proxyRes"
proof (intro conjI allI impI)
  show h: "res_headers (proxyRes_hook rq res) ''cache-control''
     = (if static_asset_match (req_url rq) then Some ''public, max-age=86400''
        else res_headers res ''cache-control'')"
    by (simp add: proxyRes_hook_def)
  show "static_asset_match (req_url rq)
     = (\<exists>pre ext post. ext \<in> set asset_words \<and> req_url rq = pre @ ''.'' @ ext @ post)"
    by (rule static_asset_match_iff)
  have "outgoing_headers rq (res_headers proxyRes) ''cache-control''
        = res_headers proxyRes ''cache-control''"
    by (intro outgoing_headers_other) simp_all
  then show "res_headers (relay rq res proxyRes) ''cache-control''
     = (case res_headers proxyRes ''cache-control'' of
          Some v \<Rightarrow> Some v
        | None \<Rightarrow> if static_asset_match (req_url rq) then Some ''public, max-age=86400''
                  else res_headers res ''cache-control'')"
    unfolding relay_def using h by (simp add: map_add_def split: option.splits)
  show "res_status (relay rq res proxyRes) = res_status proxyRes" by (simp add: relay_def)
  show "res_body (relay rq res proxyRes) = res_body proxyRes" by (simp add: relay_def)
next
  fix k v
  assume a: "res_headers proxyRes k = Some v \<and> k \<noteq> ''connection'' \<and> k \<noteq> ''transfer-encoding''"
  then have "outgoing_headers rq (res_headers proxyRes) k = Some v"
    by (simp add: outgoing_headers_other)
  then show "res_headers (relay rq res proxyRes) k = Some v"
    by (simp add: relay_def map_add_def)
next
  fix k
  assume a: "res_headers proxyRes k = None \<and> k \<noteq> ''connection'' \<and> k \<noteq> ''cache-control''"
  then have "outgoing_headers rq (res_headers proxyRes) k = None"
    by (simp add: outgoing_headers_absent)
  with a show "res_headers (relay rq res proxyRes) k = res_headers res k"
    by (simp add: relay_def map_add_def hook_other)
qed

theorem cache_control_relayed_witness:
  "res_headers (relay (demo_request\<lparr>req_url := ''/ui/app.css''\<rparr>)
      \<lparr>res_status = 200, res_headers = [''x-powered-by'' \<mapsto> ''Express''], res_body = []\<rparr>
      \<lparr>res_status = 200, res_headers = [''content-type'' \<mapsto> ''text/css''], res_body = ''body''\<rparr>)
     ''cache-control'' = Some ''public, max-age=86400''
   \<and> res_headers (relay (demo_request\<lparr>req_url := ''/ui/app.css''\<rparr>)
      \<lparr>res_status = 200, res_headers = [''x-powered-by'' \<mapsto> ''Express''], res_body = []\<rparr>
      \<lparr>res_status = 200, res_headers = [''content-type'' \<mapsto> ''text/css''], res_body = ''body''\<rparr>)
     ''content-type'' = Some ''text/css''
   \<and> res_headers (relay (demo_request\<lparr>req_url := ''/_search''\<rparr>)
      \<lparr>res_status = 200, res_headers = [''x-powered-by'' \<mapsto> ''Express''], res_body = []\<rparr>
      \<lparr>res_status = 503, res_headers = Map.empty, res_body = ''body''\<rparr>)
     ''cache-control'' = None
   \<and> res_status (relay (demo_request\<lparr>req_url := ''/_search''\<rparr>)
      \<lparr>res_status = 200, res_headers = [''x-powered-by'' \<mapsto> ''Express''], res_body = []\<rparr>
      \<lparr>res_status = 503, res_headers = Map.empty, res_body = ''body''\<rparr>) = 503"
proof -
  have a: "static_asset_match (req_url (demo_request\<lparr>req_url := ''/ui/app.css''\<rparr>))"
    by (simp add: asset_words_def)
  have b: "\<not> static_asset_match (req_url (demo_request\<lparr>req_url := ''/_search''\<rparr>))"
    by (simp add: asset_words_def)
  from a b cache_control_relayed [of "demo_request\<lparr>req_url := ''/ui/app.css''\<rparr>"
      "\<lparr>res_status = 200, res_headers = [''x-powered-by'' \<mapsto> ''Express''], res_body = []\<rparr>"
      "\<lparr>res_status = 200, res_headers = [''content-type'' \<mapsto> ''text/css''], res_body = ''body''\<rparr>"]
    cache_control_relayed [of "demo_request\<lparr>req_url := ''/_search''\<rparr>"
      "\<lparr>res_status = 200, res_headers = [''x-powered-by'' \<mapsto> ''Express''], res_body = []\<rparr>"
      "\<lparr>res_status = 503, res_headers = Map.empty, res_body = ''body''\<rparr>"]
  show ?thesis by simp
qed

text \<open>
  The claim as written fails. The header is also set for \<^verbatim>\<open>/index.json\<close>, which ends in
  none of the four suffixes; for \<^verbatim>\<open>/ui/app.css\<close> the relayed response carries the
  upstream's \<^verbatim>\<open>no-store\<close> instead of the 24-hour header; and for an HTTP/1.0 request the
  upstream's Transfer-Encoding header is not relayed.
\<close>

theorem cache_control_counterexample:
  "res_headers (relay (demo_request\<lparr>req_url := ''/index.json''\<rparr>)
      \<lparr>res_status = 200, res_headers = Map.empty, res_body = []\<rparr>
      \<lparr>res_status = 200, res_headers = Map.empty, res_body = ''{}''\<rparr>)
     ''cache-control'' = Some ''public, max-age=86400''
   \<and> \<not> suffix ''.css'' ''/index.json'' \<and> \<not> suffix ''.js'' ''/index.json''
   \<and> \<not> suffix ''.img'' ''/index.json'' \<and> \<not> suffix ''.font'' ''/index.json''
   \<and> res_headers (relay (demo_request\<lparr>req_url := ''/ui/app.css''\<rparr>)
      \<lparr>res_status = 200, res_headers = Map.empty, res_body = []\<rparr>
      \<lparr>res_status = 200, res_headers = [''cache-control'' \<mapsto> ''no-store''], res_body = ''body''\<rparr>)
     ''cache-control'' = Some ''no-store''
   \<and> suffix ''.css'' ''/ui/app.css''
   \<and> res_headers (relay (demo_request\<lparr>req_httpVersion := ''1.0'', req_url := ''/_search''\<rparr>)
      \<lparr>res_status = 200, res_headers = Map.empty, res_body = []\<rparr>
      \<lparr>res_status = 200, res_headers = [''transfer-encoding'' \<mapsto> ''chunked''], res_body = ''body''\<rparr>)
     ''transfer-encoding'' = None"
  by (simp add: relay_def proxyRes_hook_def outgoing_headers_def map_add_def suffix_to_prefix
      asset_words_def demo_request_def)

section \<open>Credential initialisation\<close>

lemma constructed_append: "constructed (xs @ ys) = constructed xs @ constructed ys"
  by (induction xs rule: constructed.induct) simp_all

lemma constructed_load_failed: "constructed (load_failed msg) = []"
  by (simp add: load_failed_def)

lemma constructed_validate: "constructed (validate w region c) = []"
  by (simp add: validate_def constructed_load_failed split: option.splits)

text \<open>
  Claim C9. With a profile configured and the first resolution failing, the run constructs
  two providers and they are the same call with the same argument; what follows is decided
  by resolving that same provider a second time.
\<close>
theorem fallback_provider_identical:
  assumes "truthy profile" "resolution w (FromNodeProviderChain profile) 0 = Some ssoError"
  shows "constructed (initializeCredentials w profile region)
           = [FromNodeProviderChain profile, FromNodeProviderChain profile]
       \<and> initializeCredentials w profile region
           = [Construct (FromNodeProviderChain profile), Resolve (FromNodeProviderChain profile),
              Log ''SSO credentials not available, trying regular profile...'',
              Construct (FromNodeProviderChain profile), Resolve (FromNodeProviderChain profile)]
             @ (case resolution w (FromNodeProviderChain profile) 1 of
                  None \<Rightarrow> Log ''AWS profile credentials loaded successfully''
                          # validate w region (FromNodeProviderChain profile)
                | Some err \<Rightarrow> load_failed err)"
proof -
  have 2: "initializeCredentials w profile region
           = [Construct (FromNodeProviderChain profile), Resolve (FromNodeProviderChain profile),
              Log ''SSO credentials not available, trying regular profile...'',
              Construct (FromNodeProviderChain profile), Resolve (FromNodeProviderChain profile)]
             @ (case resolution w (FromNodeProviderChain profile) 1 of
                  None \<Rightarrow> Log ''AWS profile credentials loaded successfully''
                          # validate w region (FromNodeProviderChain profile)
                | Some err \<Rightarrow> load_failed err)"
    using assms by (simp add: initializeCredentials_def Let_def)
  have "constructed (initializeCredentials w profile region)
           = [FromNodeProviderChain profile, FromNodeProviderChain profile]"
    unfolding 2
    by (cases "resolution w (FromNodeProviderChain profile) 1")
       (simp_all add: constructed_validate constructed_load_failed)
  with 2 show ?thesis by blast
qed

theorem fallback_provider_identical_witness:
  "constructed (initializeCredentials sso_expired_world (Some ''dev'') ''us-west-2'')
     = [FromNodeProviderChain (Some ''dev''), FromNodeProviderChain (Some ''dev'')]
   \<and> ProcessExit 1 \<in> set (initializeCredentials sso_expired_world (Some ''dev'') ''us-west-2'')"
proof -
  have t: "truthy (Some ''dev'')" by (simp add: truthy_def)
  have r: "resolution sso_expired_world (FromNodeProviderChain (Some ''dev'')) 0
           = Some ''The SSO session has expired''"
    by (simp add: sso_expired_world_def)
  have r1: "resolution sso_expired_world (FromNodeProviderChain (Some ''dev'')) 1
           = Some ''The SSO session has expired''"
    by (simp add: sso_expired_world_def)
  from fallback_provider_identical [OF t r, of "''us-west-2''"] r1
  show ?thesis by (simp add: load_failed_def)
qed

end
